theory Spec2Isabelle
  imports Main
begin

section \<open>The relay server of \<open>server.py\<close>\<close>

text \<open>
  The server keeps two module-level dictionaries, \<open>registered_clients\<close> and
  \<open>active_connections\<close>, and runs one \<open>handle_client\<close> coroutine per connection.
  The embedding below follows the source function by function.

  \<^item> Values read from the wire are the results of \<open>json.loads\<close>: the type \<open>json\<close>.
    A Python dictionary is an association list in insertion order, read by its first
    binding of a key; \<open>None\<close> is \<open>JNull\<close>. Non-integer numbers are left out: they
    behave like \<open>JInt\<close> in every function here.
  \<^item> A Python \<open>str\<close> is a \<open>string\<close>, one \<open>char\<close> standing for one code point.
  \<^item> The client dictionaries of \<open>registered_clients\<close> are objects that are shared:
    \<open>add_clients_to_active_connections\<close> stores the very object it read from
    \<open>registered_clients\<close> into \<open>active_connections\<close>. They live in an explicit
    \<open>heap\<close>, and both dictionaries hold references into it.
  \<^item> Every exception the interpreter raises (\<open>KeyError\<close>, \<open>TypeError\<close>, ...) is the
    result \<open>Raise e\<close>; what was written before the exception stays written, so a
    procedure returns its result together with the state.
  \<^item> \<open>websocket.send\<close> appends the frame to the log \<open>sent\<close>; failures of the
    transport are outside the model, and so are the \<open>print\<close> calls.
  \<^item> \<open>bleach.clean\<close>, \<open>str.encode\<close> and \<open>bcrypt.checkpw\<close> belong to libraries and
    to the interpreter: they are the fields of the parameter \<open>lib\<close>. The last two can
    raise.
\<close>

subsection \<open>Values\<close>

datatype json =
    JNull
  | JBool bool
  | JInt int
  | JStr string
  | JArr "json list"
  | JObj "(string \<times> json) list"

datatype py_error =
    TypeError | KeyError | IndexError | AttributeError | UnicodeEncodeError | ValueError

datatype 'a res = Return 'a | Raise py_error

type_synonym websocket = nat
type_synonym ref = nat

text \<open>
  One entry of \<open>registered_clients\<close>. The keys \<open>websocket\<close> and \<open>publickey\<close> do not
  exist at load; \<open>None\<close> is the missing key. A public key is whatever JSON value the
  login frame carried.
\<close>

record client =
  c_nickname :: string
  c_jid :: string
  c_password :: string
  c_websocket :: "websocket option"
  c_publickey :: "json option"

text \<open>
  \<open>clean\<close> is \<open>bleach.clean\<close> on a \<open>str\<close>. \<open>encode\<close> is
  \<open>str.encode('utf-8')\<close>, from a \<open>str\<close> to bytes: it raises
  \<open>UnicodeEncodeError\<close> on a \<open>str\<close> with a lone surrogate. \<open>checkpw\<close> is
  \<open>bcrypt.checkpw\<close>, from the bytes of a password and a stored hash to the verdict: it
  raises \<open>ValueError\<close> on input it rejects.
\<close>

record lib =
  clean :: "string \<Rightarrow> string"
  encode :: "string \<Rightarrow> string res"
  checkpw :: "string \<Rightarrow> string \<Rightarrow> bool res"

text \<open>
  \<open>handlers\<close> is not a variable of the source: it holds, for every connection whose
  coroutine is inside \<open>handle_messages\<close>, the value of that coroutine's local
  variable \<open>jid\<close>.
\<close>

record state =
  heap :: "ref \<Rightarrow> client"
  registered_clients :: "(string \<times> ref) list"
  active_connections :: "(string \<times> ref) list"
  sent :: "(websocket \<times> json) list"
  handlers :: "(websocket \<times> string option) list"

subsection \<open>Dictionaries\<close>

text \<open>\<open>d[k] = v\<close>: an existing key keeps its place, a new key goes last.\<close>

fun dict_set :: "('k \<times> 'v) list \<Rightarrow> 'k \<Rightarrow> 'v \<Rightarrow> ('k \<times> 'v) list" where
  "dict_set [] k v = [(k, v)]"
| "dict_set ((k', v') # kvs) k v =
     (if k' = k then (k, v) # kvs else (k', v') # dict_set kvs k v)"

text \<open>\<open>del d[k]\<close>, for a key that is present.\<close>

definition dict_del :: "('k \<times> 'v) list \<Rightarrow> 'k \<Rightarrow> ('k \<times> 'v) list" where
  "dict_del d k = filter (\<lambda>kv. fst kv \<noteq> k) d"

text \<open>\<open>d.get(k)\<close> on a dictionary: the value, or \<open>None\<close>.\<close>

definition dict_get :: "(string \<times> json) list \<Rightarrow> string \<Rightarrow> json" where
  "dict_get d k = (case map_of d k of None \<Rightarrow> JNull | Some v \<Rightarrow> v)"

text \<open>\<open>x.get(k)\<close> on any value: only a dictionary has the method.\<close>

definition py_get :: "json \<Rightarrow> string \<Rightarrow> json res" where
  "py_get x k = (case x of JObj d \<Rightarrow> Return (dict_get d k) | _ \<Rightarrow> Raise AttributeError)"

text \<open>\<open>x[k]\<close> with a string \<open>k\<close>.\<close>

definition getitem_str :: "json \<Rightarrow> string \<Rightarrow> json res" where
  "getitem_str x k =
     (case x of
        JObj d \<Rightarrow> (case map_of d k of None \<Rightarrow> Raise KeyError | Some v \<Rightarrow> Return v)
      | _ \<Rightarrow> Raise TypeError)"

text \<open>
  \<open>x[0]\<close>. A dictionary made by \<open>json.loads\<close> has string keys only, so it has no
  key \<open>0\<close>; a string yields its first character.
\<close>

definition getitem_0 :: "json \<Rightarrow> json res" where
  "getitem_0 x =
     (case x of
        JArr [] \<Rightarrow> Raise IndexError
      | JArr (v # _) \<Rightarrow> Return v
      | JStr [] \<Rightarrow> Raise IndexError
      | JStr (c # _) \<Rightarrow> Return (JStr [c])
      | JObj _ \<Rightarrow> Raise KeyError
      | _ \<Rightarrow> Raise TypeError)"

text \<open>
  \<open>x in active_connections\<close>: a list or a dictionary is unhashable; every key of
  \<open>active_connections\<close> is a string, so no other value is a member.
\<close>

definition in_active :: "json \<Rightarrow> state \<Rightarrow> bool res" where
  "in_active x s =
     (case x of
        JStr k \<Rightarrow> Return (map_of (active_connections s) k \<noteq> None)
      | JArr _ \<Rightarrow> Raise TypeError
      | JObj _ \<Rightarrow> Raise TypeError
      | _ \<Rightarrow> Return False)"

subsection \<open>The libraries\<close>

text \<open>
  \<open>bleach.clean(text)\<close> raises \<open>TypeError\<close> unless \<open>text\<close> is a \<open>str\<close>; on a
  \<open>str\<close> it is the sanitizer \<open>clean lib\<close>.
\<close>

definition bleach_clean :: "lib \<Rightarrow> json \<Rightarrow> string res" where
  "bleach_clean l text = (case text of JStr t \<Rightarrow> Return (clean l t) | _ \<Rightarrow> Raise TypeError)"

text \<open>
  \<open>bcrypt.checkpw(provided_password.encode('utf-8'), stored_hash)\<close>: the argument is
  evaluated first, and an exception of either call is the exception of
  \<open>verify_password\<close>.
\<close>

definition verify_password :: "lib \<Rightarrow> string \<Rightarrow> string \<Rightarrow> bool res" where
  "verify_password l stored_hash provided_password =
     (case encode l provided_password of
        Raise e \<Rightarrow> Raise e
      | Return b \<Rightarrow> checkpw l b stored_hash)"

subsection \<open>Sending\<close>

definition send_message :: "websocket \<Rightarrow> json \<Rightarrow> state \<Rightarrow> state" where
  "send_message websocket message s = s\<lparr>sent := sent s @ [(websocket, message)]\<rparr>"

definition send_login_success :: "websocket \<Rightarrow> ref \<Rightarrow> state \<Rightarrow> state" where
  "send_login_success websocket user s =
     send_message websocket
       (JObj [(''tag'', JStr ''success''),
              (''message'', JStr ''Login successful''),
              (''nickname'', JStr (c_nickname (heap s user)))]) s"

definition send_error :: "websocket \<Rightarrow> string \<Rightarrow> state \<Rightarrow> state" where
  "send_error websocket message s =
     send_message websocket (JObj [(''tag'', JStr ''error''), (''message'', JStr message)]) s"

text \<open>
  The loop of \<open>broadcast\<close> over \<open>active_connections.values()\<close>;
  \<open>client_info['websocket']\<close> raises \<open>KeyError\<close> on an object without the key.
\<close>

fun broadcast_loop :: "ref list \<Rightarrow> json \<Rightarrow> state \<Rightarrow> unit res \<times> state" where
  "broadcast_loop [] message s = (Return (), s)"
| "broadcast_loop (client_info # rest) message s =
     (case c_websocket (heap s client_info) of
        None \<Rightarrow> (Raise KeyError, s)
      | Some w \<Rightarrow> broadcast_loop rest message (send_message w message s))"

definition broadcast :: "json \<Rightarrow> state \<Rightarrow> unit res \<times> state" where
  "broadcast message s = broadcast_loop (map snd (active_connections s)) message s"

definition presence_entry :: "client \<Rightarrow> json" where
  "presence_entry client_info =
     JObj [(''nickname'', JStr (c_nickname client_info)),
           (''jid'', JStr (c_jid client_info)),
           (''publickey'', (case c_publickey client_info of None \<Rightarrow> JNull | Some k \<Rightarrow> k))]"

definition broadcast_presence :: "state \<Rightarrow> unit res \<times> state" where
  "broadcast_presence s =
     broadcast
       (JObj [(''tag'', JStr ''presence''),
              (''presence'',
                 JArr (map (\<lambda>r. presence_entry (heap s r)) (map snd (active_connections s))))]) s"

subsection \<open>Authentication and the registry\<close>

text \<open>
  \<open>authenticate_user\<close> reads \<open>registered_clients\<close>; like every function that uses
  the module's dictionaries it takes the state and returns it with its result.
\<close>

definition authenticate_user :: "lib \<Rightarrow> string \<Rightarrow> string \<Rightarrow> state \<Rightarrow> bool res \<times> state" where
  "authenticate_user l jid password s =
     (case map_of (registered_clients s) jid of
        Some user \<Rightarrow> (verify_password l (c_password (heap s user)) password, s)
      | None \<Rightarrow> (Return False, s))"

definition add_clients_to_active_connections ::
    "string \<Rightarrow> websocket \<Rightarrow> json \<Rightarrow> state \<Rightarrow> ref res \<times> state" where
  "add_clients_to_active_connections jid websocket publickey s =
     (case map_of (registered_clients s) jid of
        None \<Rightarrow> (Raise KeyError, s)
      | Some user \<Rightarrow>
          (Return user,
           s\<lparr>heap := (heap s)(user := (heap s user)\<lparr>c_websocket := Some websocket,
                                                  c_publickey := Some publickey\<rparr>),
             active_connections := dict_set (active_connections s) jid user\<rparr>))"

definition cleanup_user :: "string option \<Rightarrow> state \<Rightarrow> unit res \<times> state" where
  "cleanup_user jid s =
     (case jid of
        None \<Rightarrow> (Return (), s)
      | Some j \<Rightarrow>
          if map_of (active_connections s) j \<noteq> None
          then broadcast_presence (s\<lparr>active_connections := dict_del (active_connections s) j\<rparr>)
          else (Return (), s))"

subsection \<open>Routing\<close>

definition create_message_format :: "(string \<times> json) list \<Rightarrow> string \<Rightarrow> json" where
  "create_message_format data tag =
     JObj ([(''tag'', JStr tag),
            (''from'', dict_get data ''from''),
            (''to'', dict_get data ''to''),
            (''info'', dict_get data ''info'')]
           @ (if tag = ''file'' then [(''filename'', dict_get data ''filename'')] else []))"

definition route_message :: "json \<Rightarrow> json \<Rightarrow> state \<Rightarrow> unit res \<times> state" where
  "route_message target_jid message s =
     (if target_jid = JStr ''public'' then broadcast message s
      else (case in_active target_jid s of
              Raise e \<Rightarrow> (Raise e, s)
            | Return False \<Rightarrow> (Return (), s)
            | Return True \<Rightarrow>
                (case target_jid of
                   JStr t \<Rightarrow>
                     (case map_of (active_connections s) t of
                        None \<Rightarrow> (Raise KeyError, s)
                      | Some r \<Rightarrow>
                          (case c_websocket (heap s r) of
                             None \<Rightarrow> (Raise KeyError, s)
                           | Some w \<Rightarrow> (Return (), send_message w message s)))
                 | _ \<Rightarrow> (Raise KeyError, s))))"

definition process_message :: "lib \<Rightarrow> json \<Rightarrow> state \<Rightarrow> unit res \<times> state" where
  "process_message l data s =
     (case data of
        JObj d \<Rightarrow>
          (case in_active (dict_get d ''from'') s of
             Raise e \<Rightarrow> (Raise e, s)
           | Return False \<Rightarrow> (Return (), s)
           | Return True \<Rightarrow>
               (let target_jid = dict_get d ''to'' in
                case bleach_clean l (dict_get d ''info'') of
                  Raise e \<Rightarrow> (Raise e, s)
                | Return info \<Rightarrow>
                    if dict_get d ''tag'' = JStr ''message'' \<and> info \<noteq> []
                    then route_message target_jid (create_message_format d ''message'') s
                    else if dict_get d ''tag'' = JStr ''file''
                    then route_message target_jid (create_message_format d ''file'') s
                    else (Return (), s)))
      | _ \<Rightarrow> (Raise AttributeError, s))"

subsection \<open>The connection handler\<close>

text \<open>\<open>data['presence'][0]\<close>, which the source evaluates three times with one result.\<close>

definition first_presence :: "json \<Rightarrow> json res" where
  "first_presence data =
     (case getitem_str data ''presence'' of Raise e \<Rightarrow> Raise e | Return p \<Rightarrow> getitem_0 p)"

text \<open>
  The body of the \<open>try\<close> of \<open>handle_client\<close>, from the login frame \<open>data\<close> that
  \<open>receive_data\<close> returned up to the call of \<open>handle_messages\<close>. The result is the
  local variable \<open>jid\<close>, then \<open>Return True\<close> when \<open>handle_messages\<close> is entered,
  \<open>Return False\<close> when the \<open>if\<close> chain ended in \<open>send_error\<close>, and \<open>Raise e\<close> for
  an exception.
\<close>

definition handle_client_try ::
    "lib \<Rightarrow> websocket \<Rightarrow> json \<Rightarrow> state \<Rightarrow> string option \<times> bool res \<times> state" where
  "handle_client_try l websocket data s =
     (case first_presence data of
        Raise e \<Rightarrow> (None, Raise e, s)
      | Return p \<Rightarrow>
     (case py_get p ''jid'' of
        Raise e \<Rightarrow> (None, Raise e, s)
      | Return raw_jid \<Rightarrow>
     (case bleach_clean l raw_jid of
        Raise e \<Rightarrow> (None, Raise e, s)
      | Return jid \<Rightarrow>
     (case py_get p ''password'' of
        Raise e \<Rightarrow> (Some jid, Raise e, s)
      | Return raw_password \<Rightarrow>
     (case bleach_clean l raw_password of
        Raise e \<Rightarrow> (Some jid, Raise e, s)
      | Return password \<Rightarrow>
     (case py_get p ''publickey'' of
        Raise e \<Rightarrow> (Some jid, Raise e, s)
      | Return publickey \<Rightarrow>
          if jid = [] then
            (Some jid, Return False, send_error websocket ''* JID cannot be empty'' s)
          else if length jid > 64 then
            (Some jid, Return False,
             send_error websocket ''* JID should be less than 64 characters'' s)
          else if password = [] then
            (Some jid, Return False, send_error websocket ''* Password cannot be empty'' s)
          else if length password > 64 then
            (Some jid, Return False,
             send_error websocket ''* Password should be less than 64 characters'' s)
          else
            (case authenticate_user l jid password s of
               (Raise e, s0) \<Rightarrow> (Some jid, Raise e, s0)
             | (Return True, s0) \<Rightarrow>
                 (case add_clients_to_active_connections jid websocket publickey s0 of
                    (Raise e, s1) \<Rightarrow> (Some jid, Raise e, s1)
                  | (Return current_user, s1) \<Rightarrow>
                      (case broadcast_presence (send_login_success websocket current_user s1) of
                         (Raise e, s2) \<Rightarrow> (Some jid, Raise e, s2)
                       | (Return _, s2) \<Rightarrow> (Some jid, Return True, s2)))
             | (Return False, s0) \<Rightarrow>
                 (Some jid, Return False,
                  send_error websocket ''Incorrect email and password'' s0))))))))"

text \<open>
  What a connection can do to its coroutine: deliver the first frame (\<open>Open\<close>), deliver
  a frame inside \<open>handle_messages\<close> (\<open>Frame\<close>), or end (\<open>Close\<close>: \<open>recv\<close> raises,
  or the \<open>async for\<close> is exhausted). Each is handled without interleaving.

  \<open>try_part\<close> runs the coroutine inside the \<open>try\<close>; its first component is \<open>None\<close>
  while the coroutine stays in \<open>handle_messages\<close>, and \<open>Some jid\<close> when control
  leaves the \<open>try\<close> with the local variable \<open>jid\<close>. Then \<open>step\<close> runs the
  \<open>finally\<close>: \<open>cleanup_user(jid)\<close>. The sleep and \<open>attempt_reconnect\<close> that follow
  touch neither dictionary and send on no registered channel; they are left out.
\<close>

datatype event = Open websocket json | Frame websocket json | Close websocket

definition try_part :: "lib \<Rightarrow> event \<Rightarrow> state \<Rightarrow> string option option \<times> state" where
  "try_part l e s =
     (case e of
        Open websocket data \<Rightarrow>
          (case handle_client_try l websocket data s of
             (jid, Return True, s') \<Rightarrow>
               (None, s'\<lparr>handlers := dict_set (handlers s') websocket jid\<rparr>)
           | (jid, _, s') \<Rightarrow> (Some jid, s'))
      | Frame websocket data \<Rightarrow>
          (case map_of (handlers s) websocket of
             None \<Rightarrow> (None, s)
           | Some jid \<Rightarrow>
               (case process_message l data s of
                  (Return _, s') \<Rightarrow> (None, s')
                | (Raise _, s') \<Rightarrow>
                    (Some jid, s'\<lparr>handlers := dict_del (handlers s') websocket\<rparr>)))
      | Close websocket \<Rightarrow>
          (case map_of (handlers s) websocket of
             None \<Rightarrow> (Some None, s)
           | Some jid \<Rightarrow> (Some jid, s\<lparr>handlers := dict_del (handlers s) websocket\<rparr>)))"

definition step :: "lib \<Rightarrow> state \<Rightarrow> event \<Rightarrow> state" where
  "step l s e =
     (case try_part l e s of
        (None, s') \<Rightarrow> s'
      | (Some jid, s') \<Rightarrow> snd (cleanup_user jid s'))"

definition run :: "lib \<Rightarrow> state \<Rightarrow> event list \<Rightarrow> state" where
  "run l s es = foldl (step l) s es"

subsection \<open>The state at start\<close>

definition new_client :: "string \<Rightarrow> string \<Rightarrow> string \<Rightarrow> client" where
  "new_client n j p =
     \<lparr>c_nickname = n, c_jid = j, c_password = p, c_websocket = None, c_publickey = None\<rparr>"

definition initial_heap :: "ref \<Rightarrow> client" where
  "initial_heap r =
     (if r = 0 then new_client ''pemba'' ''c1@s5''
        ''$2b$12$qWoDtedvx8jurr/2XVex7.raoa7tqIofxPYrx1.oy6qmDpHavkYwa''
      else if r = 1 then new_client ''saurab'' ''c2@s5''
        ''$2b$12$suJThyymiIVez4nLyUjpPurPq/E3BBTRdDGMnxADdbIjdst5kbKvS''
      else if r = 2 then new_client ''roshan'' ''c3@s5''
        ''$2b$12$Cz8bUuhzYyoHMdbvZLlcs.Cc0nOSR3VzAHOFrnF3ic6unrxZ6rwoG''
      else if r = 3 then new_client ''bidur'' ''c4@s5''
        ''$2b$12$FwNWm33zvTOFtK6yrUXW0uMrMdu9jGR9AY7RgKgcm0sEzWjbhquOK''
      else if r = 4 then new_client ''test1'' ''test1@s5''
        ''$2b$12$JMN7bSNLOQw9CvefBs79rOsQYefOhnFfxt1zzKVsiKF1tw7ha5URG''
      else new_client ''test2'' ''test2@s5''
        ''$2b$12$rFzKEMeiJISlYvU1CMzSg.8ZdUn3vbfKtBRBmjQuJ3vpQV5zOY12u'')"

definition initial_state :: state where
  "initial_state =
     \<lparr>heap = initial_heap,
      registered_clients =
        [(''c1@s5'', 0), (''c2@s5'', 1), (''c3@s5'', 2), (''c4@s5'', 3),
         (''test1@s5'', 4), (''test2@s5'', 5)],
      active_connections = [],
      sent = [],
      handlers = []\<rparr>"

subsection \<open>Fixtures for the concrete instances\<close>

text \<open>
  A stand-in for the sanitizer that escapes angle brackets, as \<open>bleach.clean\<close> does
  with a tag it does not allow. \<open>utf8\<close> is UTF-8 on the code points below 256, the
  ones a \<open>char\<close> can hold: one byte below 128, two bytes from there on. The stand-in
  for \<open>bcrypt.checkpw\<close> behaves as bcrypt 5 does on a password of more than 72 bytes,
  which it rejects with \<open>ValueError\<close>; otherwise it accepts, for a stored hash, the
  password \<open>pw-\<close> followed by six characters of the hash.
\<close>

fun escape :: "string \<Rightarrow> string" where
  "escape [] = []"
| "escape (c # cs) =
     (if c = CHR ''<'' then ''&lt;'' @ escape cs
      else if c = CHR ''>'' then ''&gt;'' @ escape cs
      else c # escape cs)"

fun utf8 :: "string \<Rightarrow> string" where
  "utf8 [] = []"
| "utf8 (c # cs) =
     (if (of_char c :: nat) < 128 then c # utf8 cs
      else char_of (192 + (of_char c :: nat) div 64) #
           char_of (128 + (of_char c :: nat) mod 64) # utf8 cs)"

definition test_lib :: lib where
  "test_lib =
     \<lparr>clean = escape,
      encode = (\<lambda>text. Return (utf8 text)),
      checkpw = (\<lambda>pw h. if 72 < length pw then Raise ValueError
                          else Return (pw = ''pw-'' @ take 6 (drop 7 h)))\<rparr>"

definition login_frame :: "string \<Rightarrow> string \<Rightarrow> json" where
  "login_frame j p =
     JObj [(''presence'',
            JArr [JObj [(''jid'', JStr j), (''password'', JStr p), (''publickey'', JStr ''PK'')]])]"

definition error_frame :: "string \<Rightarrow> json" where
  "error_frame m = JObj [(''tag'', JStr ''error''), (''message'', JStr m)]"

definition success_frame :: "string \<Rightarrow> json" where
  "success_frame n =
     JObj [(''tag'', JStr ''success''), (''message'', JStr ''Login successful''),
           (''nickname'', JStr n)]"

text \<open>Two sessions online: \<open>c1@s5\<close> on connection 1 and \<open>c2@s5\<close> on connection 2.\<close>

definition two_online :: state where
  "two_online =
     run test_lib initial_state
       [Open 1 (login_frame ''c1@s5'' ''pw-qWoDte''), Open 2 (login_frame ''c2@s5'' ''pw-suJThy'')]"

text \<open>\<open>c1@s5\<close> alone, on connection 1.\<close>

definition one_online :: state where
  "one_online = run test_lib initial_state [Open 1 (login_frame ''c1@s5'' ''pw-qWoDte'')]"

text \<open>\<open>c1@s5\<close> logged in on connection 1 and then again on connection 2.\<close>

definition logged_in_twice :: state where
  "logged_in_twice =
     run test_lib initial_state
       [Open 1 (login_frame ''c1@s5'' ''pw-qWoDte''), Open 2 (login_frame ''c1@s5'' ''pw-qWoDte'')]"

subsection \<open>Auxiliary notions for the properties\<close>

text \<open>
  The state after the three assignments of \<open>add_clients_to_active_connections\<close>, for
  the object \<open>user\<close> found under \<open>jid\<close>.
\<close>

definition registered :: "string \<Rightarrow> ref \<Rightarrow> websocket \<Rightarrow> json \<Rightarrow> state \<Rightarrow> state" where
  "registered jid user w pk s =
     s\<lparr>heap := (heap s)(user := (heap s user)\<lparr>c_websocket := Some w, c_publickey := Some pk\<rparr>),
       active_connections := dict_set (active_connections s) jid user\<rparr>"

text \<open>
  The conditions under which \<open>handle_client\<close> reaches
  \<open>add_clients_to_active_connections\<close> for the sanitized jid \<open>jid\<close> and the public
  key \<open>pk\<close>: the login frame \<open>data\<close> yields the three values, the four checks of
  form pass, and \<open>authenticate_user\<close> returns true.
\<close>

definition login_accepted :: "lib \<Rightarrow> json \<Rightarrow> state \<Rightarrow> string \<Rightarrow> json \<Rightarrow> bool" where
  "login_accepted l data s jid pk \<longleftrightarrow>
     (\<exists>p raw_jid raw_password password.
        first_presence data = Return p \<and>
        py_get p ''jid'' = Return raw_jid \<and> bleach_clean l raw_jid = Return jid \<and>
        py_get p ''password'' = Return raw_password \<and>
        bleach_clean l raw_password = Return password \<and>
        py_get p ''publickey'' = Return pk \<and>
        jid \<noteq> [] \<and> length jid \<le> 64 \<and> password \<noteq> [] \<and> length password \<le> 64 \<and>
        fst (authenticate_user l jid password s) = Return True)"

text \<open>
  What holds of every state the server reaches: distinct keys of \<open>registered_clients\<close>
  hold distinct objects, every entry of \<open>active_connections\<close> is an entry of
  \<open>registered_clients\<close>, and every object in \<open>active_connections\<close> has a
  \<open>websocket\<close>.
\<close>

definition wf_state :: "state \<Rightarrow> bool" where
  "wf_state s \<longleftrightarrow>
     distinct (map snd (registered_clients s)) \<and>
     set (active_connections s) \<subseteq> set (registered_clients s) \<and>
     (\<forall>r \<in> snd ` set (active_connections s). c_websocket (heap s r) \<noteq> None)"

section \<open>Properties\<close>

subsection \<open>The fixtures, evaluated\<close>

lemmas model_defs =
  dict_del_def dict_get_def py_get_def getitem_str_def getitem_0_def in_active_def
  bleach_clean_def verify_password_def send_message_def send_login_success_def send_error_def
  broadcast_def presence_entry_def broadcast_presence_def authenticate_user_def
  add_clients_to_active_connections_def cleanup_user_def create_message_format_def
  route_message_def process_message_def first_presence_def handle_client_try_def
  try_part_def step_def run_def new_client_def initial_heap_def initial_state_def
  test_lib_def login_frame_def error_frame_def success_frame_def

lemma escape_replicate:
  "c \<noteq> CHR ''<'' \<Longrightarrow> c \<noteq> CHR ''>'' \<Longrightarrow> escape (replicate n c) = replicate n c"
  by (induction n) simp_all

lemma length_utf8_ascii: "length (utf8 (replicate n CHR ''a'')) = n"
  by (induction n) simp_all

lemma length_utf8_e_acute: "length (utf8 (replicate n (CHR 0xE9))) = 2 * n"
  by (induction n) simp_all

lemma two_online_fields:
  "active_connections two_online = [(''c1@s5'', 0), (''c2@s5'', 1)]"
  "c_websocket (heap two_online 0) = Some 1"
  "c_websocket (heap two_online (Suc 0)) = Some 2"
  "handlers two_online = [(1, Some ''c1@s5''), (2, Some ''c2@s5'')]"
  "registered_clients two_online = registered_clients initial_state"
  unfolding two_online_def by (simp_all add: model_defs)

lemma one_online_fields:
  "active_connections one_online = [(''c1@s5'', 0)]"
  "heap one_online 0 =
     (heap initial_state 0)\<lparr>c_websocket := Some 1, c_publickey := Some (JStr ''PK'')\<rparr>"
  "registered_clients one_online = registered_clients initial_state"
  "handlers one_online = [(1, Some ''c1@s5'')]"
  unfolding one_online_def by (simp_all add: model_defs)

lemma logged_in_twice_fields:
  "active_connections logged_in_twice = [(''c1@s5'', 0)]"
  "c_websocket (heap logged_in_twice 0) = Some 2"
  "handlers logged_in_twice = [(1, Some ''c1@s5''), (2, Some ''c1@s5'')]"
  unfolding logged_in_twice_def by (simp_all add: model_defs)

subsection \<open>Dictionaries and sending\<close>

lemma map_of_dict_set: "map_of (dict_set d k v) = (map_of d)(k \<mapsto> v)"
  by (induction d) (auto simp: fun_eq_iff)

lemma map_of_dict_del: "map_of (dict_del d k) k' = (if k' = k then None else map_of d k')"
  unfolding dict_del_def by (induction d) auto

lemma broadcast_loop_frame:
  "\<exists>fr. snd (broadcast_loop rs m s) = s\<lparr>sent := sent s @ fr\<rparr>"
proof (induction rs arbitrary: s)
  case Nil
  show ?case by (rule exI [of _ "[]"]) simp
next
  case (Cons r rs)
  show ?case
  proof (cases "c_websocket (heap s r)")
    case None
    then show ?thesis by (intro exI [of _ "[]"]) simp
  next
    case (Some w)
    from Cons.IH [of "send_message w m s"] obtain fr where
      "snd (broadcast_loop rs m (send_message w m s)) =
         (send_message w m s)\<lparr>sent := sent (send_message w m s) @ fr\<rparr>" by blast
    then have "snd (broadcast_loop (r # rs) m s) = s\<lparr>sent := sent s @ ((w, m) # fr)\<rparr>"
      using Some by (simp add: send_message_def)
    then show ?thesis by blast
  qed
qed


lemma broadcast_frame: "\<exists>fr. snd (broadcast m s) = s\<lparr>sent := sent s @ fr\<rparr>"
  unfolding broadcast_def by (rule broadcast_loop_frame)

lemma broadcast_presence_frame: "\<exists>fr. snd (broadcast_presence s) = s\<lparr>sent := sent s @ fr\<rparr>"
  unfolding broadcast_presence_def by (rule broadcast_frame)

lemma cleanup_user_frame:
  "\<exists>fr. snd (cleanup_user jid s) =
     s\<lparr>active_connections :=
          (case jid of None \<Rightarrow> active_connections s
           | Some j \<Rightarrow> dict_del (active_connections s) j),
       sent := sent s @ fr\<rparr>"
proof (cases jid)
  case None
  then show ?thesis unfolding cleanup_user_def by (intro exI [of _ "[]"]) simp
next
  case (Some j)
  show ?thesis
  proof (cases "map_of (active_connections s) j")
    case None
    then have "dict_del (active_connections s) j = active_connections s"
      unfolding dict_del_def by (auto simp: filter_id_conv map_of_eq_None_iff image_iff)
    with None Some show ?thesis unfolding cleanup_user_def
      by (intro exI [of _ "[]"]) simp
  next
    case (Some r)
    obtain fr where
      "snd (broadcast_presence (s\<lparr>active_connections := dict_del (active_connections s) j\<rparr>)) =
        (s\<lparr>active_connections := dict_del (active_connections s) j\<rparr>)
          \<lparr>sent := sent (s\<lparr>active_connections := dict_del (active_connections s) j\<rparr>) @ fr\<rparr>"
      using broadcast_presence_frame by blast
    with Some \<open>jid = Some j\<close> show ?thesis unfolding cleanup_user_def by auto
  qed
qed

lemma set_dict_set: "set (dict_set d k v) \<subseteq> insert (k, v) (set d)"
  by (induction d) (auto split: if_splits)

lemma set_dict_del: "set (dict_del d k) \<subseteq> set d"
  by (auto simp: dict_del_def)

lemma sent_nil: "\<exists>fr. s = s\<lparr>sent := sent s @ fr\<rparr>"
  by (rule exI [of _ "[]"]) simp

lemma send_error_frame: "\<exists>fr. send_error w m s = s\<lparr>sent := sent s @ fr\<rparr>"
  unfolding send_error_def send_message_def by (rule exI [of _ "[_]"]) simp

lemma route_message_frame: "\<exists>fr. snd (route_message t m s) = s\<lparr>sent := sent s @ fr\<rparr>"
proof (cases "t = JStr ''public''")
  case True
  then show ?thesis using broadcast_frame [of m s] by (simp add: route_message_def)
next
  case False
  have one: "\<exists>fr. send_message w m s = s\<lparr>sent := sent s @ fr\<rparr>" for w
    unfolding send_message_def by (rule exI [of _ "[_]"]) simp
  from False show ?thesis
    by (auto simp: route_message_def sent_nil one
        split: res.splits bool.splits json.splits option.splits)
qed

lemma process_message_frame: "\<exists>fr. snd (process_message l data s) = s\<lparr>sent := sent s @ fr\<rparr>"
  using route_message_frame
  by (auto simp: process_message_def sent_nil Let_def
      split: res.splits bool.splits json.splits)

subsection \<open>The shape of a login\<close>

lemma authenticate_user_state: "snd (authenticate_user l jid password s) = s"
  by (simp add: authenticate_user_def split: option.split)

lemma authenticate_user_result:
  "authenticate_user l jid password s = (fst (authenticate_user l jid password s), s)"
  using authenticate_user_state [of l jid password s]
  by (cases "authenticate_user l jid password s") simp

lemma authenticate_user_registered:
  assumes "fst (authenticate_user l jid password s) = Return True"
  shows "\<exists>user. map_of (registered_clients s) jid = Some user"
  using assms by (cases "map_of (registered_clients s) jid") (simp_all add: authenticate_user_def)

text \<open>An accepted login registers the session and sends the success reply first.\<close>

lemma handle_client_try_accepted:
  assumes "login_accepted l data s jid pk"
  shows "\<exists>user r fr. map_of (registered_clients s) jid = Some user \<and> r \<noteq> Return False \<and>
           handle_client_try l w data s =
             (Some jid, r,
              (registered jid user w pk s)
                \<lparr>sent := sent s @ (w, success_frame (c_nickname (heap s user))) # fr\<rparr>)"
proof -
  from assms obtain p raw_jid raw_password password where
    fp: "first_presence data = Return p"
    and j: "py_get p ''jid'' = Return raw_jid" "bleach_clean l raw_jid = Return jid"
    and pw: "py_get p ''password'' = Return raw_password"
      "bleach_clean l raw_password = Return password"
    and k: "py_get p ''publickey'' = Return pk"
    and form: "jid \<noteq> []" "length jid \<le> 64" "password \<noteq> []" "length password \<le> 64"
    and auth: "fst (authenticate_user l jid password s) = Return True"
    unfolding login_accepted_def by blast
  from auth have au: "authenticate_user l jid password s = (Return True, s)"
    using authenticate_user_result [of l jid password s] by simp
  from authenticate_user_registered [OF auth] obtain user where
    u: "map_of (registered_clients s) jid = Some user" by blast
  let ?s1 = "registered jid user w pk s"
  have add: "add_clients_to_active_connections jid w pk s = (Return user, ?s1)"
    using u by (simp add: add_clients_to_active_connections_def registered_def)
  obtain r0 s2 where bp: "broadcast_presence (send_login_success w user ?s1) = (r0, s2)"
    by (cases "broadcast_presence (send_login_success w user ?s1)") auto
  obtain fr where "snd (broadcast_presence (send_login_success w user ?s1)) =
      (send_login_success w user ?s1)\<lparr>sent := sent (send_login_success w user ?s1) @ fr\<rparr>"
    using broadcast_presence_frame by blast
  with bp have s2: "s2 = ?s1\<lparr>sent := sent s @ (w, success_frame (c_nickname (heap s user))) # fr\<rparr>"
    by (simp add: send_login_success_def send_message_def registered_def success_frame_def)
  have "handle_client_try l w data s =
      (Some jid, (case r0 of Return _ \<Rightarrow> Return True | Raise e \<Rightarrow> Raise e), s2)"
    using form unfolding handle_client_try_def
    by (simp add: fp j pw k au add bp split: res.split)
  moreover have "(case r0 of Return _ \<Rightarrow> Return True | Raise e \<Rightarrow> Raise e) \<noteq> Return False"
    by (cases r0) simp_all
  ultimately show ?thesis using u s2 by blast
qed

text \<open>A login that is not accepted changes the log only, and does not enter the loop.\<close>

lemma handle_client_try_rejected:
  assumes "\<not> (\<exists>jid pk. login_accepted l data s jid pk)"
    and "handle_client_try l w data s = (jv, r, s')"
  shows "r \<noteq> Return True \<and> (\<exists>fr. s' = s\<lparr>sent := sent s @ fr\<rparr>)"
proof -
  have no: "fst (authenticate_user l jid password s) \<noteq> Return True"
    if "first_presence data = Return p"
      "py_get p ''jid'' = Return raw_jid" "bleach_clean l raw_jid = Return jid"
      "py_get p ''password'' = Return raw_password"
      "bleach_clean l raw_password = Return password"
      "py_get p ''publickey'' = Return pk"
      "jid \<noteq> []" "length jid \<le> 64" "password \<noteq> []" "length password \<le> 64"
    for p raw_jid jid raw_password password pk
    using assms(1) that unfolding login_accepted_def by blast
  have st: "authenticate_user l jid password s = (b, s0) \<Longrightarrow> s0 = s \<and>
      fst (authenticate_user l jid password s) = b" for jid password b s0
    using authenticate_user_state [of l jid password s] by simp
  show ?thesis
    using assms(2) unfolding handle_client_try_def
    by (auto split: res.splits if_splits prod.splits bool.splits
        simp: sent_nil send_error_frame dest!: st dest: no)
qed

text \<open>
  A login either leaves everything but the log as it was and does not enter
  \<open>handle_messages\<close>, or it was accepted, has registered the session and has sent the
  success reply.
\<close>

lemma handle_client_try_shape:
  assumes "handle_client_try l w data s = (jv, r, s')"
  shows "(r \<noteq> Return True \<and> (\<exists>fr. s' = s\<lparr>sent := sent s @ fr\<rparr>)) \<or>
         (r \<noteq> Return False \<and>
          (\<exists>jid user pk fr. jv = Some jid \<and> map_of (registered_clients s) jid = Some user \<and>
             login_accepted l data s jid pk \<and>
             s' = (registered jid user w pk s)
                    \<lparr>sent := sent s @ (w, success_frame (c_nickname (heap s user))) # fr\<rparr>))"
proof (cases "\<exists>jid pk. login_accepted l data s jid pk")
  case False
  from handle_client_try_rejected [OF False assms] show ?thesis by blast
next
  case True
  then obtain jid pk where acc: "login_accepted l data s jid pk" by blast
  from handle_client_try_accepted [OF acc, of w] obtain user r' fr where
    u: "map_of (registered_clients s) jid = Some user" and r': "r' \<noteq> Return False"
    and h: "handle_client_try l w data s =
      (Some jid, r',
       (registered jid user w pk s)
         \<lparr>sent := sent s @ (w, success_frame (c_nickname (heap s user))) # fr\<rparr>)"
    by blast
  from h assms have "jv = Some jid" "r = r'"
    "s' = (registered jid user w pk s)
         \<lparr>sent := sent s @ (w, success_frame (c_nickname (heap s user))) # fr\<rparr>"
    by simp_all
  with u r' acc show ?thesis by blast
qed

subsection \<open>Authentication\<close>

text \<open>
  C4 fails on the code: for a jid in the store and a wrong password,
  \<open>authenticate_user\<close> need not return false. With bcrypt 5 a password of 73 bytes
  makes \<open>bcrypt.checkpw\<close> raise \<open>ValueError\<close>, and so \<open>authenticate_user\<close>.
\<close>

theorem authenticate_user_raises_counterexample:
  "map_of (registered_clients initial_state) ''c1@s5'' = Some 0 \<and>
   fst (authenticate_user test_lib ''c1@s5'' ''pw-qWoDte'' initial_state) = Return True \<and>
   fst (authenticate_user test_lib ''c1@s5'' (replicate 73 CHR ''a'') initial_state) =
     Raise ValueError \<and>
   fst (authenticate_user test_lib ''c1@s5'' (replicate 73 CHR ''a'') initial_state) \<noteq>
     Return False"
  by (simp add: authenticate_user_def verify_password_def test_lib_def initial_state_def
      initial_heap_def new_client_def length_utf8_ascii)

text \<open>
  C4, as the code has it. \<open>authenticate_user\<close> never changes the state. For a jid
  that is not a key of \<open>registered_clients\<close> it returns false. For a jid that is a
  key, it encodes the password and hands the bytes and the hash stored in that entry
  to \<open>checkpw\<close>: when both return, the result is the verdict of \<open>checkpw\<close>, true or
  false; when the encoding raises, or \<open>checkpw\<close> raises, it raises the same
  exception and returns no verdict.
\<close>

theorem authenticate_user_verdict:
  "snd (authenticate_user l jid password s) = s \<and>
   (map_of (registered_clients s) jid = None \<longrightarrow>
      fst (authenticate_user l jid password s) = Return False) \<and>
   (map_of (registered_clients s) jid = Some user \<and> encode l password = Return b \<and>
    checkpw l b (c_password (heap s user)) = Return v \<longrightarrow>
      fst (authenticate_user l jid password s) = Return v) \<and>
   (map_of (registered_clients s) jid = Some user \<and> encode l password = Raise e \<longrightarrow>
      fst (authenticate_user l jid password s) = Raise e) \<and>
   (map_of (registered_clients s) jid = Some user \<and> encode l password = Return b \<and>
    checkpw l b (c_password (heap s user)) = Raise e \<longrightarrow>
      fst (authenticate_user l jid password s) = Raise e)"
  by (cases "map_of (registered_clients s) jid")
    (simp_all add: authenticate_user_def verify_password_def)

theorem authenticate_user_verdict_witness:
  "snd (authenticate_user test_lib ''c1@s5'' ''pw-qWoDte'' initial_state) = initial_state \<and>
   fst (authenticate_user test_lib ''nobody@s5'' ''pw-qWoDte'' initial_state) = Return False \<and>
   fst (authenticate_user test_lib ''c1@s5'' ''pw-qWoDte'' initial_state) = Return True \<and>
   fst (authenticate_user test_lib ''c1@s5'' ''pw-suJThy'' initial_state) = Return False \<and>
   fst (authenticate_user test_lib ''c1@s5'' (replicate 73 CHR ''a'') initial_state) =
     Raise ValueError \<and>
   fst (authenticate_user
          (test_lib\<lparr>encode := (\<lambda>text. Raise UnicodeEncodeError)\<rparr>) ''c1@s5'' ''pw-qWoDte''
          initial_state) = Raise UnicodeEncodeError"
proof -
  let ?h = "c_password (heap initial_state 0)"
  have absent: "map_of (registered_clients initial_state) ''nobody@s5'' = None"
    and present: "map_of (registered_clients initial_state) ''c1@s5'' = Some 0"
    by (simp_all add: initial_state_def)
  have enc: "encode test_lib ''pw-qWoDte'' = Return ''pw-qWoDte''"
    "encode test_lib ''pw-suJThy'' = Return ''pw-suJThy''"
    "encode test_lib (replicate 73 CHR ''a'') = Return (utf8 (replicate 73 CHR ''a''))"
    "encode (test_lib\<lparr>encode := (\<lambda>text. Raise UnicodeEncodeError)\<rparr>) ''pw-qWoDte'' =
       Raise UnicodeEncodeError"
    by (simp_all add: test_lib_def)
  have chk: "checkpw test_lib ''pw-qWoDte'' ?h = Return True"
    "checkpw test_lib ''pw-suJThy'' ?h = Return False"
    "checkpw test_lib (utf8 (replicate 73 CHR ''a'')) ?h = Raise ValueError"
    by (simp_all add: test_lib_def initial_state_def initial_heap_def new_client_def
        length_utf8_ascii)
  from authenticate_user_verdict
      [of test_lib "''nobody@s5''" "''pw-qWoDte''" initial_state] absent
  have 1: "fst (authenticate_user test_lib ''nobody@s5'' ''pw-qWoDte'' initial_state) =
      Return False" by blast
  from authenticate_user_verdict
      [of test_lib "''c1@s5''" "''pw-qWoDte''" initial_state 0 "''pw-qWoDte''" True]
    present enc(1) chk(1)
  have 2: "snd (authenticate_user test_lib ''c1@s5'' ''pw-qWoDte'' initial_state) =
      initial_state"
    "fst (authenticate_user test_lib ''c1@s5'' ''pw-qWoDte'' initial_state) = Return True"
    by blast+
  from authenticate_user_verdict
      [of test_lib "''c1@s5''" "''pw-suJThy''" initial_state 0 "''pw-suJThy''" False]
    present enc(2) chk(2)
  have 3: "fst (authenticate_user test_lib ''c1@s5'' ''pw-suJThy'' initial_state) =
      Return False" by blast
  from authenticate_user_verdict
      [of test_lib "''c1@s5''" "replicate 73 CHR ''a''" initial_state 0
        "utf8 (replicate 73 CHR ''a'')" _ ValueError]
    present enc(3) chk(3)
  have 4: "fst (authenticate_user test_lib ''c1@s5'' (replicate 73 CHR ''a'') initial_state) =
      Raise ValueError" by blast
  from authenticate_user_verdict
      [of "test_lib\<lparr>encode := (\<lambda>text. Raise UnicodeEncodeError)\<rparr>" "''c1@s5''"
        "''pw-qWoDte''" initial_state 0 _ _ UnicodeEncodeError]
    present enc(4)
  have 5: "fst (authenticate_user
          (test_lib\<lparr>encode := (\<lambda>text. Raise UnicodeEncodeError)\<rparr>) ''c1@s5'' ''pw-qWoDte''
          initial_state) = Raise UnicodeEncodeError" by blast
  from 1 2 3 4 5 show ?thesis by simp
qed

subsection \<open>Messages from a sender that is not active\<close>

text \<open>
  C7 fails on the code when \<open>from\<close> is a list or a dictionary: it is no identity of
  an active session, yet the test of membership raises \<open>TypeError\<close>, the coroutine
  leaves its loop, and its \<open>finally\<close> removes the session of the connection the
  envelope came on and broadcasts the presence. Here connection 1, logged in as
  \<open>c1@s5\<close>, sends an envelope whose \<open>from\<close> is the empty list.
\<close>

theorem unhashable_sender_counterexample:
  "map_of (active_connections two_online) ''c1@s5'' = Some 0 \<and>
   map_of (active_connections
      (step test_lib two_online
         (Frame 1 (JObj [(''tag'', JStr ''message''), (''from'', JArr []),
                         (''to'', JStr ''c2@s5''), (''info'', JStr ''hi'')])))) ''c1@s5'' = None \<and>
   sent (step test_lib two_online
         (Frame 1 (JObj [(''tag'', JStr ''message''), (''from'', JArr []),
                         (''to'', JStr ''c2@s5''), (''info'', JStr ''hi'')]))) =
     sent two_online @
       [(2, JObj [(''tag'', JStr ''presence''),
                  (''presence'',
                     JArr [JObj [(''nickname'', JStr ''saurab''), (''jid'', JStr ''c2@s5''),
                                 (''publickey'', JStr ''PK'')]])])]"
proof -
  have more: "c_nickname (heap two_online (Suc 0)) = ''saurab''"
    "c_jid (heap two_online (Suc 0)) = ''c2@s5''"
    "c_publickey (heap two_online (Suc 0)) = Some (JStr ''PK'')"
    unfolding two_online_def by (simp_all add: model_defs)
  show ?thesis
    by (simp add: two_online_fields more step_def try_part_def process_message_def
        in_active_def dict_get_def cleanup_user_def dict_del_def broadcast_presence_def
        broadcast_def presence_entry_def send_message_def)
qed

text \<open>
  C7, as the code has it. For an envelope whose \<open>from\<close> is not a key of
  \<open>active_connections\<close>, \<open>process_message\<close> sends nothing and changes nothing. When
  \<open>from\<close> is a string, a missing key or another scalar, it returns, and the whole
  handling of the frame leaves the state as it was. When \<open>from\<close> is a list or a
  dictionary, it raises \<open>TypeError\<close>.
\<close>

theorem process_message_inactive_sender:
  assumes "\<forall>f. dict_get d ''from'' = JStr f \<longrightarrow> map_of (active_connections s) f = None"
  shows "snd (process_message l (JObj d) s) = s \<and>
         ((\<forall>xs. dict_get d ''from'' \<noteq> JArr xs) \<and> (\<forall>kvs. dict_get d ''from'' \<noteq> JObj kvs) \<longrightarrow>
            process_message l (JObj d) s = (Return (), s) \<and>
            step l s (Frame w (JObj d)) = s) \<and>
         ((\<exists>xs. dict_get d ''from'' = JArr xs) \<or> (\<exists>kvs. dict_get d ''from'' = JObj kvs) \<longrightarrow>
            process_message l (JObj d) s = (Raise TypeError, s))"
proof -
  have scalar: "process_message l (JObj d) s = (Return (), s)"
    if "\<forall>xs. dict_get d ''from'' \<noteq> JArr xs" "\<forall>kvs. dict_get d ''from'' \<noteq> JObj kvs"
  proof -
    from assms that have "in_active (dict_get d ''from'') s = Return False"
      by (cases "dict_get d ''from''") (simp_all add: in_active_def)
    then show ?thesis by (simp add: process_message_def)
  qed
  have container: "process_message l (JObj d) s = (Raise TypeError, s)"
    if "(\<exists>xs. dict_get d ''from'' = JArr xs) \<or> (\<exists>kvs. dict_get d ''from'' = JObj kvs)"
  proof -
    from that have "in_active (dict_get d ''from'') s = Raise TypeError"
      by (auto simp: in_active_def)
    then show ?thesis by (simp add: process_message_def)
  qed
  have "snd (process_message l (JObj d) s) = s"
  proof (cases "(\<exists>xs. dict_get d ''from'' = JArr xs) \<or> (\<exists>kvs. dict_get d ''from'' = JObj kvs)")
    case True
    then show ?thesis by (simp add: container)
  next
    case False
    then show ?thesis by (simp add: scalar)
  qed
  moreover have "step l s (Frame w (JObj d)) = s"
    if "\<forall>xs. dict_get d ''from'' \<noteq> JArr xs" "\<forall>kvs. dict_get d ''from'' \<noteq> JObj kvs"
    using scalar [OF that] by (simp add: step_def try_part_def split: option.split)
  ultimately show ?thesis using scalar container by blast
qed

theorem process_message_inactive_sender_witness:
  "process_message test_lib
     (JObj [(''tag'', JStr ''message''), (''from'', JStr ''c3@s5''), (''to'', JStr ''c1@s5''),
            (''info'', JStr ''hi'')]) two_online = (Return (), two_online) \<and>
   step test_lib two_online
     (Frame 2 (JObj [(''tag'', JStr ''message''), (''from'', JStr ''c3@s5''),
                     (''to'', JStr ''c1@s5''), (''info'', JStr ''hi'')])) = two_online \<and>
   process_message test_lib
     (JObj [(''tag'', JStr ''message''), (''from'', JArr []), (''to'', JStr ''c1@s5''),
            (''info'', JStr ''hi'')]) two_online = (Raise TypeError, two_online)"
  using process_message_inactive_sender
    [of "[(''tag'', JStr ''message''), (''from'', JStr ''c3@s5''), (''to'', JStr ''c1@s5''),
          (''info'', JStr ''hi'')]" two_online test_lib 2]
    process_message_inactive_sender
    [of "[(''tag'', JStr ''message''), (''from'', JArr []), (''to'', JStr ''c1@s5''),
          (''info'', JStr ''hi'')]" two_online test_lib 2]
  by (simp add: dict_get_def two_online_fields)

subsection \<open>Messages without \<open>info\<close>\<close>

text \<open>
  C10. For an envelope from an active sender that has no \<open>info\<close> key,
  \<open>process_message\<close> raises \<open>TypeError\<close> (the sanitizer is applied to \<open>None\<close>) for
  every tag, before anything is sent. Conversely, whenever \<open>process_message\<close> returns
  normally for an active sender, which includes every run that reaches the discarding
  branch, the envelope carries a string under \<open>info\<close>.
\<close>

theorem process_message_missing_info:
  assumes "dict_get d ''from'' = JStr f" and "map_of (active_connections s) f = Some r"
  shows "(map_of d ''info'' = None \<longrightarrow> process_message l (JObj d) s = (Raise TypeError, s)) \<and>
         (fst (process_message l (JObj d) s) = Return () \<longrightarrow>
            (\<exists>i. map_of d ''info'' = Some (JStr i)))"
proof -
  from assms have act: "in_active (dict_get d ''from'') s = Return True"
    by (simp add: in_active_def)
  have "process_message l (JObj d) s = (Raise TypeError, s)" if "map_of d ''info'' = None"
  proof -
    from that have "bleach_clean l (dict_get d ''info'') = Raise TypeError"
      by (simp add: bleach_clean_def dict_get_def)
    with act show ?thesis by (simp add: process_message_def)
  qed
  moreover have "\<exists>i. map_of d ''info'' = Some (JStr i)"
    if ret: "fst (process_message l (JObj d) s) = Return ()"
  proof (cases "dict_get d ''info''")
    case (JStr i)
    then have "map_of d ''info'' = Some (JStr i)"
      by (auto simp: dict_get_def split: option.splits)
    then show ?thesis by blast
  qed (use ret act in \<open>simp_all add: process_message_def bleach_clean_def\<close>)
  ultimately show ?thesis by blast
qed

theorem process_message_missing_info_witness:
  "process_message test_lib
     (JObj [(''tag'', JStr ''message''), (''from'', JStr ''c1@s5''), (''to'', JStr ''c2@s5'')])
     two_online = (Raise TypeError, two_online) \<and>
   fst (process_message test_lib
     (JObj [(''tag'', JStr ''ping''), (''from'', JStr ''c1@s5''), (''info'', JStr ''x'')])
     two_online) = Return () \<and>
   (\<exists>i. map_of [(''tag'', JStr ''ping''), (''from'', JStr ''c1@s5''), (''info'', JStr ''x'')]
          ''info'' = Some (JStr i))"
proof -
  have ret: "fst (process_message test_lib
     (JObj [(''tag'', JStr ''ping''), (''from'', JStr ''c1@s5''), (''info'', JStr ''x'')])
     two_online) = Return ()"
    by (simp add: process_message_def in_active_def dict_get_def bleach_clean_def
        two_online_fields)
  from process_message_missing_info
    [of "[(''tag'', JStr ''message''), (''from'', JStr ''c1@s5''), (''to'', JStr ''c2@s5'')]"
        "''c1@s5''" two_online 0 test_lib]
    process_message_missing_info
    [of "[(''tag'', JStr ''ping''), (''from'', JStr ''c1@s5''), (''info'', JStr ''x'')]"
        "''c1@s5''" two_online 0 test_lib]
    ret
  show ?thesis by (simp add: dict_get_def two_online_fields)
qed

subsection \<open>Dispatch on the tag\<close>

text \<open>
  C6 fails on the code for an envelope without a string under \<open>info\<close>: the sanitizer
  raises before the tag is looked at. A \<open>file\<close> envelope with a filename and no
  \<open>info\<close> is not forwarded, and an envelope with another tag and no \<open>info\<close> is not
  dropped: the exception ends the loop of the connection, whose session is removed.
\<close>

theorem file_without_info_counterexample:
  "process_message test_lib
     (JObj [(''tag'', JStr ''file''), (''from'', JStr ''c1@s5''), (''to'', JStr ''c2@s5''),
            (''filename'', JStr ''a.txt'')]) two_online = (Raise TypeError, two_online) \<and>
   process_message test_lib
     (JObj [(''tag'', JStr ''ping''), (''from'', JStr ''c1@s5''), (''to'', JStr ''c2@s5'')])
     two_online = (Raise TypeError, two_online) \<and>
   map_of (active_connections two_online) ''c1@s5'' = Some 0 \<and>
   map_of (active_connections
      (step test_lib two_online
         (Frame 1 (JObj [(''tag'', JStr ''ping''), (''from'', JStr ''c1@s5''),
                         (''to'', JStr ''c2@s5'')])))) ''c1@s5'' = None"
  by (simp add: two_online_fields step_def try_part_def process_message_def in_active_def
      dict_get_def bleach_clean_def cleanup_user_def dict_del_def broadcast_presence_def
      broadcast_def send_message_def)

text \<open>
  C6, as the code has it. For an envelope from an active sender whose \<open>info\<close> is a
  string: with tag \<open>message\<close> and an empty sanitized \<open>info\<close> it is dropped, nothing
  is sent and the state is as before; with tag \<open>file\<close> the record of the keys
  \<open>tag\<close>, \<open>from\<close>, \<open>to\<close>, \<open>info\<close>, \<open>filename\<close> is handed to
  \<open>route_message\<close> whatever \<open>info\<close> is, the empty string included; with any other
  tag, or none, it is dropped. For an envelope from an active sender whose \<open>info\<close>
  is missing or not a string, \<open>process_message\<close> raises \<open>TypeError\<close> whatever the
  tag, before anything is sent.
\<close>

theorem process_message_by_tag:
  assumes "dict_get d ''from'' = JStr f" and "map_of (active_connections s) f = Some r"
  shows "(dict_get d ''info'' = JStr i \<and> dict_get d ''tag'' = JStr ''message'' \<and>
          clean l i = [] \<longrightarrow>
            process_message l (JObj d) s = (Return (), s)) \<and>
         (dict_get d ''info'' = JStr i \<and> dict_get d ''tag'' = JStr ''file'' \<longrightarrow>
            process_message l (JObj d) s =
              route_message (dict_get d ''to'')
                (JObj [(''tag'', JStr ''file''), (''from'', JStr f), (''to'', dict_get d ''to''),
                       (''info'', JStr i), (''filename'', dict_get d ''filename'')]) s) \<and>
         (dict_get d ''info'' = JStr i \<and> dict_get d ''tag'' \<noteq> JStr ''message'' \<and>
          dict_get d ''tag'' \<noteq> JStr ''file'' \<longrightarrow>
            process_message l (JObj d) s = (Return (), s)) \<and>
         ((\<forall>t. dict_get d ''info'' \<noteq> JStr t) \<longrightarrow>
            process_message l (JObj d) s = (Raise TypeError, s))"
proof -
  from assms have act: "in_active (dict_get d ''from'') s = Return True"
    by (simp add: in_active_def)
  have str: "process_message l (JObj d) s =
      (if dict_get d ''tag'' = JStr ''message'' \<and> clean l i \<noteq> []
       then route_message (dict_get d ''to'') (create_message_format d ''message'') s
       else if dict_get d ''tag'' = JStr ''file''
       then route_message (dict_get d ''to'') (create_message_format d ''file'') s
       else (Return (), s))"
    if "dict_get d ''info'' = JStr i"
    using that act by (simp add: process_message_def bleach_clean_def Let_def)
  have other: "process_message l (JObj d) s = (Raise TypeError, s)"
    if "\<forall>t. dict_get d ''info'' \<noteq> JStr t"
  proof -
    from that have "bleach_clean l (dict_get d ''info'') = Raise TypeError"
      by (cases "dict_get d ''info''") (simp_all add: bleach_clean_def)
    with act show ?thesis by (simp add: process_message_def)
  qed
  have ffmt: "create_message_format d ''file'' =
      JObj [(''tag'', JStr ''file''), (''from'', JStr f), (''to'', dict_get d ''to''),
            (''info'', JStr i), (''filename'', dict_get d ''filename'')]"
    if "dict_get d ''info'' = JStr i"
    using that assms(1) by (simp add: create_message_format_def)
  show ?thesis using str other ffmt by auto
qed

theorem process_message_by_tag_witness:
  "process_message test_lib
     (JObj [(''tag'', JStr ''message''), (''from'', JStr ''c1@s5''), (''to'', JStr ''c2@s5''),
            (''info'', JStr [])]) two_online = (Return (), two_online) \<and>
   process_message test_lib
     (JObj [(''tag'', JStr ''file''), (''from'', JStr ''c1@s5''), (''to'', JStr ''c2@s5''),
            (''info'', JStr []), (''filename'', JStr ''a.txt'')]) two_online =
     (Return (),
      two_online\<lparr>sent := sent two_online @
        [(2, JObj [(''tag'', JStr ''file''), (''from'', JStr ''c1@s5''), (''to'', JStr ''c2@s5''),
                   (''info'', JStr []), (''filename'', JStr ''a.txt'')])]\<rparr>) \<and>
   process_message test_lib
     (JObj [(''tag'', JStr ''ping''), (''from'', JStr ''c1@s5''), (''to'', JStr ''c2@s5''),
            (''info'', JStr ''x'')]) two_online = (Return (), two_online) \<and>
   process_message test_lib
     (JObj [(''tag'', JStr ''message''), (''from'', JStr ''c1@s5''), (''to'', JStr ''c2@s5''),
            (''info'', JInt 7)]) two_online = (Raise TypeError, two_online)"
proof -
  have route: "route_message (JStr ''c2@s5'') m two_online =
      (Return (), two_online\<lparr>sent := sent two_online @ [(2, m)]\<rparr>)" for m
    by (simp add: route_message_def in_active_def send_message_def two_online_fields)
  have esc: "clean test_lib [] = []" by (simp add: test_lib_def)
  from process_message_by_tag
    [of "[(''tag'', JStr ''message''), (''from'', JStr ''c1@s5''), (''to'', JStr ''c2@s5''),
          (''info'', JStr [])]" "''c1@s5''" two_online 0 "[]" test_lib]
    process_message_by_tag
    [of "[(''tag'', JStr ''file''), (''from'', JStr ''c1@s5''), (''to'', JStr ''c2@s5''),
          (''info'', JStr []), (''filename'', JStr ''a.txt'')]" "''c1@s5''" two_online 0 "[]"
        test_lib]
    process_message_by_tag
    [of "[(''tag'', JStr ''ping''), (''from'', JStr ''c1@s5''), (''to'', JStr ''c2@s5''),
          (''info'', JStr ''x'')]" "''c1@s5''" two_online 0 "''x''" test_lib]
    process_message_by_tag
    [of "[(''tag'', JStr ''message''), (''from'', JStr ''c1@s5''), (''to'', JStr ''c2@s5''),
          (''info'', JInt 7)]" "''c1@s5''" two_online 0 "[]" test_lib]
  show ?thesis by (simp add: dict_get_def two_online_fields esc route)
qed

subsection \<open>Forwarding\<close>



subsection \<open>Login\<close>

text \<open>
  C8. When a login enters \<open>handle_messages\<close>, the local \<open>jid\<close> is a key of
  \<open>registered_clients\<close>, \<open>active_connections\<close> holds under it the very object that
  \<open>registered_clients\<close> holds, the nickname of that object is what it was before the
  login, and the first frame the login sent is the success reply on its own connection
  with that nickname. The login frame \<open>data\<close> is arbitrary, so nothing it carries
  can change the name.
\<close>

theorem login_display_name:
  assumes "handle_client_try l w data s = (jv, Return True, s')"
  shows "\<exists>jid user fr. jv = Some jid \<and>
           map_of (registered_clients s) jid = Some user \<and>
           map_of (registered_clients s') jid = Some user \<and>
           map_of (active_connections s') jid = Some user \<and>
           c_nickname (heap s' user) = c_nickname (heap s user) \<and>
           sent s' = sent s @
             (w, JObj [(''tag'', JStr ''success''), (''message'', JStr ''Login successful''),
                       (''nickname'', JStr (c_nickname (heap s user)))]) # fr"
proof -
  from handle_client_try_shape [OF assms] obtain jid user pk fr where
    jv: "jv = Some jid" and u: "map_of (registered_clients s) jid = Some user"
    and s': "s' = (registered jid user w pk s)
                    \<lparr>sent := sent s @ (w, success_frame (c_nickname (heap s user))) # fr\<rparr>"
    by auto
  from s' have "map_of (active_connections s') jid = Some user"
    by (simp add: registered_def map_of_dict_set)
  moreover from s' u have "map_of (registered_clients s') jid = Some user"
    by (simp add: registered_def)
  moreover from s' have "c_nickname (heap s' user) = c_nickname (heap s user)"
    by (simp add: registered_def)
  moreover from s' have "sent s' = sent s @
      (w, JObj [(''tag'', JStr ''success''), (''message'', JStr ''Login successful''),
                (''nickname'', JStr (c_nickname (heap s user)))]) # fr"
    by (simp add: success_frame_def)
  ultimately show ?thesis using jv u by blast
qed

theorem login_display_name_witness:
  "fst (snd (handle_client_try test_lib 1
     (JObj [(''presence'',
        JArr [JObj [(''jid'', JStr ''c1@s5''), (''password'', JStr ''pw-qWoDte''),
                    (''publickey'', JStr ''PK''), (''nickname'', JStr ''mallory'')]])])
     initial_state)) = Return True \<and>
   (\<exists>s' fr. s' = snd (snd (handle_client_try test_lib 1
     (JObj [(''presence'',
        JArr [JObj [(''jid'', JStr ''c1@s5''), (''password'', JStr ''pw-qWoDte''),
                    (''publickey'', JStr ''PK''), (''nickname'', JStr ''mallory'')]])])
     initial_state)) \<and>
     map_of (active_connections s') ''c1@s5'' = Some 0 \<and>
     c_nickname (heap s' 0) = ''pemba'' \<and>
     sent s' = (1, JObj [(''tag'', JStr ''success''), (''message'', JStr ''Login successful''),
                         (''nickname'', JStr ''pemba'')]) # fr)"
proof -
  define data where "data =
     JObj [(''presence'',
        JArr [JObj [(''jid'', JStr ''c1@s5''), (''password'', JStr ''pw-qWoDte''),
                    (''publickey'', JStr ''PK''), (''nickname'', JStr ''mallory'')]])]"
  obtain jv r s' where h: "handle_client_try test_lib 1 data initial_state = (jv, r, s')"
    by (cases "handle_client_try test_lib 1 data initial_state") auto
  have "fst (handle_client_try test_lib 1 data initial_state) = Some ''c1@s5''"
    and "fst (snd (handle_client_try test_lib 1 data initial_state)) = Return True"
    unfolding data_def by (simp_all add: model_defs)
  with h have jv: "jv = Some ''c1@s5''" and r: "r = Return True" by simp_all
  have reg: "map_of (registered_clients initial_state) ''c1@s5'' = Some 0"
    and nick: "c_nickname (heap initial_state 0) = ''pemba''"
    and nil: "sent initial_state = []"
    by (simp_all add: initial_state_def initial_heap_def new_client_def)
  from login_display_name [OF h [unfolded r]] jv reg nick nil
  obtain fr where "map_of (active_connections s') ''c1@s5'' = Some 0"
    "c_nickname (heap s' 0) = ''pemba''"
    "sent s' = (1, JObj [(''tag'', JStr ''success''), (''message'', JStr ''Login successful''),
                         (''nickname'', JStr ''pemba'')]) # fr"
    by auto
  with h r show ?thesis unfolding data_def [symmetric] by auto
qed

text \<open>
  C9 as the specification words it does not hold. The reply to an empty jid is not the
  frame with the message \<open>JID cannot be empty\<close>: the message starts with an asterisk
  and a blank. And a failing authentication need not send a reply: a password of 64
  times the letter e with acute passes the checks of length, is 128 bytes long in
  UTF-8, and makes \<open>bcrypt.checkpw\<close> of bcrypt 5 raise \<open>ValueError\<close>; the login ends
  with that exception and nothing is sent.
\<close>

theorem login_error_literal_counterexample:
  "sent (snd (snd (handle_client_try test_lib 7 (login_frame [] ''x'') initial_state))) =
     [(7, JObj [(''tag'', JStr ''error''), (''message'', JStr ''* JID cannot be empty'')])] \<and>
   sent (snd (snd (handle_client_try test_lib 7 (login_frame [] ''x'') initial_state))) \<noteq>
     [(7, JObj [(''tag'', JStr ''error''), (''message'', JStr ''JID cannot be empty'')])] \<and>
   handle_client_try test_lib 7 (login_frame ''c1@s5'' (replicate 64 (CHR 0xE9))) initial_state =
     (Some ''c1@s5'', Raise ValueError, initial_state) \<and>
   sent initial_state = []"
proof -
  have "handle_client_try test_lib 7 (login_frame ''c1@s5'' (replicate 64 (CHR 0xE9)))
      initial_state = (Some ''c1@s5'', Raise ValueError, initial_state)"
    by (simp add: handle_client_try_def first_presence_def getitem_str_def getitem_0_def
        py_get_def dict_get_def bleach_clean_def login_frame_def authenticate_user_def
        verify_password_def test_lib_def escape_replicate length_utf8_e_acute
        initial_state_def)
  moreover have
    "sent (snd (snd (handle_client_try test_lib 7 (login_frame [] ''x'') initial_state))) =
       [(7, JObj [(''tag'', JStr ''error''), (''message'', JStr ''* JID cannot be empty'')])]"
    by (simp add: model_defs)
  ultimately show ?thesis by (simp add: initial_state_def)
qed

text \<open>
  C9, as the code has it. For a login frame whose first presence entry carries strings
  under \<open>jid\<close> and \<open>password\<close>, the sanitized values are checked in the order
  jid empty, jid longer than 64, password empty, password longer than 64,
  authentication. When one of the four checks of form fails, or \<open>authenticate_user\<close>
  returns false, the login ends with exactly one frame, an error reply on the
  connection itself, and nothing else changes; the four messages of the checks of form
  start with an asterisk and a blank. When \<open>authenticate_user\<close> raises, the login
  ends with that exception and no frame is sent.
\<close>

theorem login_validation_order:
  assumes "map_of d ''presence'' = Some (JArr (JObj p # rest))"
    and "dict_get p ''jid'' = JStr raw_jid"
    and "dict_get p ''password'' = JStr raw_password"
    and "jid = clean l raw_jid" and "password = clean l raw_password"
  shows "(jid = [] \<longrightarrow>
            handle_client_try l w (JObj d) s =
              (Some jid, Return False,
               s\<lparr>sent := sent s @ [(w, error_frame ''* JID cannot be empty'')]\<rparr>)) \<and>
         (64 < length jid \<longrightarrow>
            handle_client_try l w (JObj d) s =
              (Some jid, Return False,
               s\<lparr>sent := sent s @
                  [(w, error_frame ''* JID should be less than 64 characters'')]\<rparr>)) \<and>
         (jid \<noteq> [] \<and> length jid \<le> 64 \<and> password = [] \<longrightarrow>
            handle_client_try l w (JObj d) s =
              (Some jid, Return False,
               s\<lparr>sent := sent s @ [(w, error_frame ''* Password cannot be empty'')]\<rparr>)) \<and>
         (jid \<noteq> [] \<and> length jid \<le> 64 \<and> 64 < length password \<longrightarrow>
            handle_client_try l w (JObj d) s =
              (Some jid, Return False,
               s\<lparr>sent := sent s @
                  [(w, error_frame ''* Password should be less than 64 characters'')]\<rparr>)) \<and>
         (jid \<noteq> [] \<and> length jid \<le> 64 \<and> password \<noteq> [] \<and> length password \<le> 64 \<and>
          fst (authenticate_user l jid password s) = Return False \<longrightarrow>
            handle_client_try l w (JObj d) s =
              (Some jid, Return False,
               s\<lparr>sent := sent s @ [(w, error_frame ''Incorrect email and password'')]\<rparr>)) \<and>
         (jid \<noteq> [] \<and> length jid \<le> 64 \<and> password \<noteq> [] \<and> length password \<le> 64 \<and>
          fst (authenticate_user l jid password s) = Raise e \<longrightarrow>
            handle_client_try l w (JObj d) s = (Some jid, Raise e, s))"
proof -
  from assms(1) have fp: "first_presence (JObj d) = Return (JObj p)"
    by (simp add: first_presence_def getitem_str_def getitem_0_def)
  from assms(2,4) have j: "bleach_clean l (dict_get p ''jid'') = Return jid"
    by (simp add: bleach_clean_def)
  from assms(3,5) have pw: "bleach_clean l (dict_get p ''password'') = Return password"
    by (simp add: bleach_clean_def)
  have err: "send_error w m s = s\<lparr>sent := sent s @ [(w, error_frame m)]\<rparr>" for m
    by (simp add: send_error_def send_message_def error_frame_def)
  note au = authenticate_user_result [of l jid password s]
  have form: "handle_client_try l w (JObj d) s =
      (if jid = [] then (Some jid, Return False, send_error w ''* JID cannot be empty'' s)
       else if 64 < length jid
       then (Some jid, Return False,
             send_error w ''* JID should be less than 64 characters'' s)
       else if password = []
       then (Some jid, Return False, send_error w ''* Password cannot be empty'' s)
       else if 64 < length password
       then (Some jid, Return False,
             send_error w ''* Password should be less than 64 characters'' s)
       else (case authenticate_user l jid password s of
               (Raise e, s0) \<Rightarrow> (Some jid, Raise e, s0)
             | (Return True, s0) \<Rightarrow>
                 (case add_clients_to_active_connections jid w (dict_get p ''publickey'') s0 of
                    (Raise e, s1) \<Rightarrow> (Some jid, Raise e, s1)
                  | (Return current_user, s1) \<Rightarrow>
                      (case broadcast_presence (send_login_success w current_user s1) of
                         (Raise e, s2) \<Rightarrow> (Some jid, Raise e, s2)
                       | (Return _, s2) \<Rightarrow> (Some jid, Return True, s2)))
             | (Return False, s0) \<Rightarrow>
                 (Some jid, Return False, send_error w ''Incorrect email and password'' s0)))"
    unfolding handle_client_try_def by (simp add: fp j pw py_get_def)
  have no: "handle_client_try l w (JObj d) s =
      (Some jid, Return False, send_error w ''Incorrect email and password'' s)"
    if "jid \<noteq> []" "length jid \<le> 64" "password \<noteq> []" "length password \<le> 64"
      "fst (authenticate_user l jid password s) = Return False"
    using that au by (simp add: form)
  have exc: "handle_client_try l w (JObj d) s = (Some jid, Raise e, s)"
    if "jid \<noteq> []" "length jid \<le> 64" "password \<noteq> []" "length password \<le> 64"
      "fst (authenticate_user l jid password s) = Raise e"
    using that au by (simp add: form)
  have "jid = [] \<longrightarrow> handle_client_try l w (JObj d) s =
      (Some jid, Return False, send_error w ''* JID cannot be empty'' s)"
    and "64 < length jid \<longrightarrow> handle_client_try l w (JObj d) s =
      (Some jid, Return False, send_error w ''* JID should be less than 64 characters'' s)"
    and "jid \<noteq> [] \<and> length jid \<le> 64 \<and> password = [] \<longrightarrow> handle_client_try l w (JObj d) s =
      (Some jid, Return False, send_error w ''* Password cannot be empty'' s)"
    and "jid \<noteq> [] \<and> length jid \<le> 64 \<and> 64 < length password \<longrightarrow>
      handle_client_try l w (JObj d) s =
      (Some jid, Return False,
       send_error w ''* Password should be less than 64 characters'' s)"
    by (auto simp: form)
  with no exc show ?thesis unfolding err by blast
qed

theorem login_validation_order_witness:
  "handle_client_try test_lib 7 (login_frame [] []) initial_state =
     (Some [], Return False,
      initial_state\<lparr>sent := [(7, error_frame ''* JID cannot be empty'')]\<rparr>) \<and>
   handle_client_try test_lib 7 (login_frame (replicate 65 CHR ''a'') []) initial_state =
     (Some (replicate 65 CHR ''a''), Return False,
      initial_state\<lparr>sent := [(7, error_frame ''* JID should be less than 64 characters'')]\<rparr>) \<and>
   handle_client_try test_lib 7 (login_frame ''c1@s5'' []) initial_state =
     (Some ''c1@s5'', Return False,
      initial_state\<lparr>sent := [(7, error_frame ''* Password cannot be empty'')]\<rparr>) \<and>
   handle_client_try test_lib 7 (login_frame ''c1@s5'' (replicate 65 CHR ''a'')) initial_state =
     (Some ''c1@s5'', Return False,
      initial_state\<lparr>sent :=
        [(7, error_frame ''* Password should be less than 64 characters'')]\<rparr>) \<and>
   handle_client_try test_lib 7 (login_frame ''c1@s5'' ''guess'') initial_state =
     (Some ''c1@s5'', Return False,
      initial_state\<lparr>sent := [(7, error_frame ''Incorrect email and password'')]\<rparr>) \<and>
   handle_client_try test_lib 7 (login_frame ''c1@s5'' (replicate 64 (CHR 0xE9))) initial_state =
     (Some ''c1@s5'', Raise ValueError, initial_state)"
proof -
  have esc: "escape (replicate n CHR ''a'') = replicate n CHR ''a''"
    "escape (replicate n (CHR 0xE9)) = replicate n (CHR 0xE9)" for n
    by (simp_all add: escape_replicate)
  have nil: "sent initial_state = []" by (simp add: initial_state_def)
  have auth: "fst (authenticate_user test_lib ''c1@s5'' ''guess'' initial_state) = Return False"
    by (simp add: model_defs)
  have exc: "fst (authenticate_user test_lib ''c1@s5'' (replicate 64 (CHR 0xE9)) initial_state)
      = Raise ValueError"
    by (simp add: authenticate_user_def verify_password_def test_lib_def initial_state_def
        length_utf8_e_acute)
  let ?p = "\<lambda>j pw. [(''jid'', JStr j), (''password'', JStr pw), (''publickey'', JStr ''PK'')]"
  let ?d = "\<lambda>j pw. [(''presence'', JArr [JObj (?p j pw)])]"
  note inst = login_validation_order
    [where l = test_lib and w = 7 and s = initial_state and rest = "[]", OF _ _ _ refl refl]
  from inst [of "?d [] []" "?p [] []" "[]" "[]"]
    inst [of "?d (replicate 65 CHR ''a'') []" "?p (replicate 65 CHR ''a'') []"
        "replicate 65 CHR ''a''" "[]"]
    inst [of "?d ''c1@s5'' []" "?p ''c1@s5'' []" "''c1@s5''" "[]"]
    inst [of "?d ''c1@s5'' (replicate 65 CHR ''a'')" "?p ''c1@s5'' (replicate 65 CHR ''a'')"
        "''c1@s5''" "replicate 65 CHR ''a''"]
    inst [of "?d ''c1@s5'' ''guess''" "?p ''c1@s5'' ''guess''" "''c1@s5''" "''guess''"]
    inst [of "?d ''c1@s5'' (replicate 64 (CHR 0xE9))" "?p ''c1@s5'' (replicate 64 (CHR 0xE9))"
        "''c1@s5''" "replicate 64 (CHR 0xE9)" ValueError]
    auth exc
  show ?thesis
    by (simp add: login_frame_def dict_get_def test_lib_def esc nil)
qed

subsection \<open>What a forwarded message carries\<close>

text \<open>
  C1 fails on the code. \<open>process_message\<close> sanitizes \<open>info\<close> for the test of
  emptiness only; \<open>create_message_format\<close> reads \<open>info\<close> from the envelope again.
  Here \<open>c1@s5\<close> sends markup to \<open>c2@s5\<close>: the sanitized text differs from the
  text received, and the frame sent on connection 2 carries the text received. The same
  happens with tag \<open>file\<close>.
\<close>

theorem process_message_forwards_raw_info:
  "bleach_clean test_lib (JStr ''<script>alert(1)</script>'') =
     Return ''&lt;script&gt;alert(1)&lt;/script&gt;'' \<and>
   process_message test_lib
     (JObj [(''tag'', JStr ''message''), (''from'', JStr ''c1@s5''), (''to'', JStr ''c2@s5''),
            (''info'', JStr ''<script>alert(1)</script>'')]) two_online =
     (Return (),
      two_online\<lparr>sent := sent two_online @
        [(2, JObj [(''tag'', JStr ''message''), (''from'', JStr ''c1@s5''),
                   (''to'', JStr ''c2@s5''),
                   (''info'', JStr ''<script>alert(1)</script>'')])]\<rparr>) \<and>
   process_message test_lib
     (JObj [(''tag'', JStr ''file''), (''from'', JStr ''c1@s5''), (''to'', JStr ''c2@s5''),
            (''info'', JStr ''<script>alert(1)</script>''), (''filename'', JStr ''a.txt'')])
     two_online =
     (Return (),
      two_online\<lparr>sent := sent two_online @
        [(2, JObj [(''tag'', JStr ''file''), (''from'', JStr ''c1@s5''),
                   (''to'', JStr ''c2@s5''),
                   (''info'', JStr ''<script>alert(1)</script>''),
                   (''filename'', JStr ''a.txt'')])]\<rparr>)"
  by (simp add: process_message_def in_active_def dict_get_def bleach_clean_def
      create_message_format_def route_message_def send_message_def test_lib_def
      two_online_fields)

subsection \<open>One event\<close>

text \<open>
  Inside the \<open>try\<close>, an event changes the log and the handlers only, unless it is
  a login frame that registered a session.
\<close>

lemma try_part_shape:
  assumes "try_part l e s = (out, s')"
  shows "(\<exists>fr h. s' = s\<lparr>sent := sent s @ fr, handlers := h\<rparr>) \<or>
         (\<exists>w data jid user pk fr h r s1.
            e = Open w data \<and> handle_client_try l w data s = (Some jid, r, s1) \<and>
            map_of (registered_clients s) jid = Some user \<and>
            login_accepted l data s jid pk \<and>
            s' = (registered jid user w pk s)\<lparr>sent := sent s @ fr, handlers := h\<rparr> \<and>
            (out = None \<and> r = Return True \<or> out = Some (Some jid)))"
proof (cases e)
  case (Open w data)
  obtain jv r s1 where h: "handle_client_try l w data s = (jv, r, s1)"
    by (cases "handle_client_try l w data s") auto
  from handle_client_try_shape [OF h] show ?thesis
  proof (elim disjE conjE exE)
    fix fr
    assume "r \<noteq> Return True" and s1: "s1 = s\<lparr>sent := sent s @ fr\<rparr>"
    with assms Open h have "s' = s1"
      by (auto simp: try_part_def split: res.splits bool.splits)
    with s1 have "s' = s\<lparr>sent := sent s @ fr, handlers := handlers s\<rparr>" by simp
    then show ?thesis by blast
  next
    fix jid user pk fr
    assume r: "r \<noteq> Return False" and jv: "jv = Some jid"
      and u: "map_of (registered_clients s) jid = Some user"
      and acc: "login_accepted l data s jid pk"
      and s1: "s1 = (registered jid user w pk s)
          \<lparr>sent := sent s @ (w, success_frame (c_nickname (heap s user))) # fr\<rparr>"
    let ?fr = "(w, success_frame (c_nickname (heap s user))) # fr"
    from assms Open h r jv
    consider "out = None" "r = Return True" "s' = s1\<lparr>handlers := dict_set (handlers s1) w jv\<rparr>"
      | "out = Some (Some jid)" "s' = s1"
      by (auto simp: try_part_def split: res.splits bool.splits)
    then show ?thesis
    proof cases
      case 1
      with s1 have "s' = (registered jid user w pk s)
          \<lparr>sent := sent s @ ?fr, handlers := dict_set (handlers s1) w jv\<rparr>" by simp
      with 1 Open h jv u acc show ?thesis by blast
    next
      case 2
      with s1 have "s' = (registered jid user w pk s)
          \<lparr>sent := sent s @ ?fr, handlers := handlers s\<rparr>" by (simp add: registered_def)
      with 2 Open h jv u acc show ?thesis by blast
    qed
  qed
next
  case (Frame w data)
  show ?thesis
  proof (cases "map_of (handlers s) w")
    case None
    with assms Frame have "s' = s\<lparr>sent := sent s @ [], handlers := handlers s\<rparr>"
      by (simp add: try_part_def)
    then show ?thesis by blast
  next
    case (Some jid)
    obtain fr where "snd (process_message l data s) = s\<lparr>sent := sent s @ fr\<rparr>"
      using process_message_frame by blast
    with assms Frame Some
    have "s' = s\<lparr>sent := sent s @ fr, handlers := handlers s\<rparr> \<or>
          s' = s\<lparr>sent := sent s @ fr, handlers := dict_del (handlers s) w\<rparr>"
      by (auto simp: try_part_def split: prod.splits res.splits)
    then show ?thesis by blast
  qed
next
  case (Close w)
  with assms have "s' = s\<lparr>sent := sent s @ [], handlers := handlers s\<rparr> \<or>
      s' = s\<lparr>sent := sent s @ [], handlers := dict_del (handlers s) w\<rparr>"
    by (auto simp: try_part_def split: option.splits)
  then show ?thesis by blast
qed

lemma step_fields:
  assumes "try_part l e s = (out, s')"
  shows "heap (step l s e) = heap s'"
    and "registered_clients (step l s e) = registered_clients s'"
    and "active_connections (step l s e) =
           (case out of Some (Some j) \<Rightarrow> dict_del (active_connections s') j
            | _ \<Rightarrow> active_connections s')"
proof -
  have "heap (step l s e) = heap s' \<and>
        registered_clients (step l s e) = registered_clients s' \<and>
        active_connections (step l s e) =
           (case out of Some (Some j) \<Rightarrow> dict_del (active_connections s') j
            | _ \<Rightarrow> active_connections s')"
  proof (cases out)
    case None
    with assms show ?thesis by (simp add: step_def)
  next
    case (Some jid)
    obtain fr where "snd (cleanup_user jid s') =
        s'\<lparr>active_connections :=
             (case jid of None \<Rightarrow> active_connections s'
              | Some j \<Rightarrow> dict_del (active_connections s') j),
           sent := sent s' @ fr\<rparr>"
      using cleanup_user_frame by blast
    with assms Some show ?thesis by (simp add: step_def split: option.splits)
  qed
  then show "heap (step l s e) = heap s'"
    and "registered_clients (step l s e) = registered_clients s'"
    and "active_connections (step l s e) =
           (case out of Some (Some j) \<Rightarrow> dict_del (active_connections s') j
            | _ \<Rightarrow> active_connections s')"
    by simp_all
qed

subsection \<open>States the server reaches\<close>

text \<open>
  \<open>wf_state\<close> holds at start and is kept by every event, so it holds after every run.
  In such a state each active session has a channel: the channels form a list, as the
  statement on broadcasting assumes.
\<close>

lemma wf_initial_state: "wf_state initial_state"
  by (simp add: wf_state_def initial_state_def)

lemma wf_step:
  assumes "wf_state s"
  shows "wf_state (step l s e)"
proof -
  obtain out s' where tp: "try_part l e s = (out, s')"
    by (cases "try_part l e s") auto
  note f = step_fields [OF tp]
  have sub: "set (active_connections (step l s e)) \<subseteq> set (active_connections s')"
    using set_dict_del [of "active_connections s'"]
    by (auto simp: f(3) split: option.splits)
  from try_part_shape [OF tp] consider
    (same) fr h where "s' = s\<lparr>sent := sent s @ fr, handlers := h\<rparr>"
  | (login) w jid user pk fr h where "map_of (registered_clients s) jid = Some user"
      "s' = (registered jid user w pk s)\<lparr>sent := sent s @ fr, handlers := h\<rparr>"
    by blast
  then show ?thesis
  proof cases
    case same
    then have "heap s' = heap s" "registered_clients s' = registered_clients s"
      "active_connections s' = active_connections s" by simp_all
    with assms sub show ?thesis
      unfolding wf_state_def f(1,2) by (auto simp: image_iff)
  next
    case login
    note u = login(1) and s' = login(2)
    from s' have hp: "heap s' =
        (heap s)(user := (heap s user)\<lparr>c_websocket := Some w, c_publickey := Some pk\<rparr>)"
      and rc: "registered_clients s' = registered_clients s"
      and ac: "active_connections s' = dict_set (active_connections s) jid user"
      by (simp_all add: registered_def)
    from u have "(jid, user) \<in> set (registered_clients s)" by (rule map_of_SomeD)
    with assms sub ac set_dict_set [of "active_connections s" jid user]
    have in_rc: "set (active_connections (step l s e)) \<subseteq> set (registered_clients s)"
      and in_ac: "set (active_connections (step l s e)) \<subseteq>
          insert (jid, user) (set (active_connections s))"
      unfolding wf_state_def by auto
    have "c_websocket (heap s' x) \<noteq> None"
      if "x \<in> snd ` set (active_connections (step l s e))" for x
    proof (cases "x = user")
      case True
      then show ?thesis by (simp add: hp)
    next
      case False
      with that in_ac have "x \<in> snd ` set (active_connections s)" by auto
      with assms have "c_websocket (heap s x) \<noteq> None" unfolding wf_state_def by blast
      with False show ?thesis by (simp add: hp)
    qed
    with assms in_rc show ?thesis unfolding wf_state_def f(1,2) rc by blast
  qed
qed

lemma wf_run: "wf_state s \<Longrightarrow> wf_state (run l s es)"
  unfolding run_def by (induction es arbitrary: s) (simp_all add: wf_step)

lemma wf_reachable: "wf_state (run l initial_state es)"
  by (intro wf_run wf_initial_state)

lemma wf_channels:
  assumes "wf_state s"
  shows "\<exists>ws. map (\<lambda>r. c_websocket (heap s r)) (map snd (active_connections s)) = map Some ws"
proof -
  have all: "\<exists>ws. map (\<lambda>r. c_websocket (heap s r)) rs = map Some ws"
    if "\<forall>r \<in> set rs. c_websocket (heap s r) \<noteq> None" for rs
    using that
  proof (induction rs)
    case Nil
    then show ?case by simp
  next
    case (Cons r rs)
    then obtain w ws where "c_websocket (heap s r) = Some w"
      "map (\<lambda>r. c_websocket (heap s r)) rs = map Some ws" by auto
    then have "map (\<lambda>r. c_websocket (heap s r)) (r # rs) = map Some (w # ws)" by simp
    then show ?case by blast
  qed
  from assms have "\<forall>r \<in> set (map snd (active_connections s)). c_websocket (heap s r) \<noteq> None"
    unfolding wf_state_def by simp
  then show ?thesis by (rule all)
qed

subsection \<open>The credential store\<close>

text \<open>
  C2 fails on the code: \<open>add_clients_to_active_connections\<close> writes the keys
  \<open>websocket\<close> and \<open>publickey\<close> into the entry of \<open>registered_clients\<close> itself.
  Before the login the entry of \<open>c1@s5\<close> has neither key; after it, it has both.
\<close>

theorem credential_entry_counterexample:
  "map_of (registered_clients initial_state) ''c1@s5'' = Some 0 \<and>
   c_websocket (heap initial_state 0) = None \<and>
   c_publickey (heap initial_state 0) = None \<and>
   map_of (registered_clients
      (step test_lib initial_state (Open 1 (login_frame ''c1@s5'' ''pw-qWoDte'')))) ''c1@s5'' =
     Some 0 \<and>
   c_websocket (heap
      (step test_lib initial_state (Open 1 (login_frame ''c1@s5'' ''pw-qWoDte''))) 0) = Some 1 \<and>
   c_publickey (heap
      (step test_lib initial_state (Open 1 (login_frame ''c1@s5'' ''pw-qWoDte''))) 0) =
     Some (JStr ''PK'')"
  by (simp add: model_defs)

text \<open>
  C2, as the code has it. No event adds, removes or rebinds a key of
  \<open>registered_clients\<close>, and none changes the nickname, the jid or the password hash
  of an object. An object changes only at a login frame that is accepted (the checks
  of form pass and \<open>authenticate_user\<close> returns true) for a jid that is a key for
  it; then its \<open>websocket\<close> becomes the connection of the login and its
  \<open>publickey\<close> the public key of the frame, nothing else. Every accepted login
  writes these two keys into the object its jid is a key for, and changes no other
  object.
\<close>

theorem credential_store_changes:
  "registered_clients (step l s e) = registered_clients s \<and>
   c_nickname (heap (step l s e) x) = c_nickname (heap s x) \<and>
   c_jid (heap (step l s e) x) = c_jid (heap s x) \<and>
   c_password (heap (step l s e) x) = c_password (heap s x) \<and>
   (heap (step l s e) x \<noteq> heap s x \<longrightarrow>
      (\<exists>w data jid pk.
         e = Open w data \<and> login_accepted l data s jid pk \<and>
         map_of (registered_clients s) jid = Some x \<and>
         heap (step l s e) x = (heap s x)\<lparr>c_websocket := Some w, c_publickey := Some pk\<rparr>)) \<and>
   (login_accepted l data' s jid' pk' \<and> map_of (registered_clients s) jid' = Some x' \<longrightarrow>
      heap (step l s (Open w' data')) =
        (heap s)(x' := (heap s x')\<lparr>c_websocket := Some w', c_publickey := Some pk'\<rparr>))"
proof -
  have forward: "heap (step l s (Open w' data')) =
        (heap s)(x' := (heap s x')\<lparr>c_websocket := Some w', c_publickey := Some pk'\<rparr>)"
    if acc: "login_accepted l data' s jid' pk'"
      and x': "map_of (registered_clients s) jid' = Some x'"
  proof -
    from handle_client_try_accepted [OF acc, of w'] x' obtain r fr where
      h: "handle_client_try l w' data' s =
        (Some jid', r,
         (registered jid' x' w' pk' s)
           \<lparr>sent := sent s @ (w', success_frame (c_nickname (heap s x'))) # fr\<rparr>)"
      by auto
    obtain out s' where tp: "try_part l (Open w' data') s = (out, s')"
      by (cases "try_part l (Open w' data') s") auto
    with h have "heap s' = heap (registered jid' x' w' pk' s)"
      by (auto simp: try_part_def split: res.splits bool.splits)
    then show ?thesis by (simp add: step_fields(1) [OF tp] registered_def)
  qed
  obtain out s' where tp: "try_part l e s = (out, s')"
    by (cases "try_part l e s") auto
  note f = step_fields [OF tp]
  from try_part_shape [OF tp] consider
    (same) fr h where "s' = s\<lparr>sent := sent s @ fr, handlers := h\<rparr>"
  | (login) w data jid user pk fr h where "e = Open w data"
      "login_accepted l data s jid pk"
      "map_of (registered_clients s) jid = Some user"
      "s' = (registered jid user w pk s)\<lparr>sent := sent s @ fr, handlers := h\<rparr>"
    by blast
  then have "registered_clients (step l s e) = registered_clients s \<and>
   c_nickname (heap (step l s e) x) = c_nickname (heap s x) \<and>
   c_jid (heap (step l s e) x) = c_jid (heap s x) \<and>
   c_password (heap (step l s e) x) = c_password (heap s x) \<and>
   (heap (step l s e) x \<noteq> heap s x \<longrightarrow>
      (\<exists>w data jid pk.
         e = Open w data \<and> login_accepted l data s jid pk \<and>
         map_of (registered_clients s) jid = Some x \<and>
         heap (step l s e) x = (heap s x)\<lparr>c_websocket := Some w, c_publickey := Some pk\<rparr>))"
  proof cases
    case same
    then show ?thesis by (simp add: f)
  next
    case login
    from login(4) have hp: "heap (step l s e) =
        (heap s)(user := (heap s user)\<lparr>c_websocket := Some w, c_publickey := Some pk\<rparr>)"
      and rc: "registered_clients (step l s e) = registered_clients s"
      by (simp_all add: f registered_def)
    show ?thesis
    proof (cases "x = user")
      case True
      with login(1,2,3) hp rc show ?thesis by auto
    next
      case False
      with hp rc show ?thesis by simp
    qed
  qed
  with forward show ?thesis by blast
qed

theorem credential_store_changes_witness:
  "registered_clients (step test_lib initial_state (Open 1 (login_frame ''c1@s5'' ''pw-qWoDte'')))
     = registered_clients initial_state \<and>
   c_password (heap (step test_lib initial_state (Open 1 (login_frame ''c1@s5'' ''pw-qWoDte''))) 0)
     = c_password (heap initial_state 0) \<and>
   login_accepted test_lib (login_frame ''c1@s5'' ''pw-qWoDte'') initial_state ''c1@s5''
     (JStr ''PK'') \<and>
   heap (step test_lib initial_state (Open 1 (login_frame ''c1@s5'' ''pw-qWoDte''))) =
     (heap initial_state)
       (0 := (heap initial_state 0)\<lparr>c_websocket := Some 1, c_publickey := Some (JStr ''PK'')\<rparr>) \<and>
   heap (step test_lib initial_state (Open 1 (login_frame ''c1@s5'' ''pw-qWoDte''))) 0 \<noteq>
     heap initial_state 0 \<and>
   (\<exists>jid pk. login_accepted test_lib (login_frame ''c1@s5'' ''pw-qWoDte'') initial_state jid pk \<and>
      map_of (registered_clients initial_state) jid = Some 0)"
proof -
  let ?data = "login_frame ''c1@s5'' ''pw-qWoDte''"
  let ?s = "step test_lib initial_state (Open 1 ?data)"
  let ?p = "JObj [(''jid'', JStr ''c1@s5''), (''password'', JStr ''pw-qWoDte''),
                  (''publickey'', JStr ''PK'')]"
  have "first_presence ?data = Return ?p \<and>
      py_get ?p ''jid'' = Return (JStr ''c1@s5'') \<and>
      bleach_clean test_lib (JStr ''c1@s5'') = Return ''c1@s5'' \<and>
      py_get ?p ''password'' = Return (JStr ''pw-qWoDte'') \<and>
      bleach_clean test_lib (JStr ''pw-qWoDte'') = Return ''pw-qWoDte'' \<and>
      py_get ?p ''publickey'' = Return (JStr ''PK'') \<and>
      ''c1@s5'' \<noteq> [] \<and> length ''c1@s5'' \<le> 64 \<and>
      ''pw-qWoDte'' \<noteq> [] \<and> length ''pw-qWoDte'' \<le> 64 \<and>
      fst (authenticate_user test_lib ''c1@s5'' ''pw-qWoDte'' initial_state) = Return True"
    by (simp add: model_defs)
  then have acc: "login_accepted test_lib ?data initial_state ''c1@s5'' (JStr ''PK'')"
    unfolding login_accepted_def by blast
  have reg: "map_of (registered_clients initial_state) ''c1@s5'' = Some 0"
    by (simp add: initial_state_def)
  note inst = credential_store_changes
    [of test_lib initial_state "Open 1 ?data" 0 ?data "''c1@s5''" "JStr ''PK''" 0 1]
  from inst acc reg have hp: "heap ?s =
     (heap initial_state)
       (0 := (heap initial_state 0)\<lparr>c_websocket := Some 1, c_publickey := Some (JStr ''PK'')\<rparr>)"
    by blast
  have "c_websocket (heap initial_state 0) = None"
    by (simp add: initial_state_def initial_heap_def new_client_def)
  moreover from hp have "c_websocket (heap ?s 0) = Some 1" by simp
  ultimately have ne: "heap ?s 0 \<noteq> heap initial_state 0"
    by (metis option.distinct(1))
  with inst have "\<exists>jid pk. login_accepted test_lib ?data initial_state jid pk \<and>
      map_of (registered_clients initial_state) jid = Some 0" by blast
  with inst acc hp ne show ?thesis by blast
qed

subsection \<open>The end of a session\<close>

text \<open>
  C3 fails on the code: \<open>cleanup_user\<close> deletes by jid and knows no owner. After
  \<open>c1@s5\<close> has logged in on connection 1 and again on connection 2, the session
  under \<open>c1@s5\<close> is the one of connection 2, which is still inside
  \<open>handle_messages\<close>; the end of connection 1 removes it.
\<close>

theorem cleanup_removes_later_session_counterexample:
  "map_of (active_connections logged_in_twice) ''c1@s5'' = Some 0 \<and>
   c_websocket (heap logged_in_twice 0) = Some 2 \<and>
   map_of (active_connections (step test_lib logged_in_twice (Close 1))) ''c1@s5'' = None \<and>
   map_of (handlers (step test_lib logged_in_twice (Close 1))) 2 = Some (Some ''c1@s5'')"
  by (simp add: logged_in_twice_fields step_def try_part_def cleanup_user_def dict_del_def
      broadcast_presence_def broadcast_def)

lemma leave_try_removes:
  assumes "fst (try_part l e s) = Some (Some X)"
  shows "map_of (active_connections (step l s e)) X = None"
proof -
  obtain out s' where tp: "try_part l e s = (out, s')"
    by (cases "try_part l e s") auto
  with assms have "out = Some (Some X)" by simp
  then show ?thesis by (simp add: step_fields(3) [OF tp] map_of_dict_del)
qed

text \<open>
  C3, as the code has it. The entry of \<open>active_connections\<close> under a jid \<open>X\<close> is
  removed only by an event at which a coroutine leaves its \<open>try\<close> with the local
  \<open>jid\<close> equal to \<open>X\<close>. The end of a connection that logged in as \<open>X\<close> removes
  the entry under \<open>X\<close>, whichever connection registered it. In a state the server
  reaches, an entry that stays but is another object, or whose object has changed, was
  overwritten by a login frame for \<open>X\<close> that entered \<open>handle_messages\<close>.
\<close>

theorem session_removal:
  "(map_of (active_connections s) X \<noteq> None \<and>
    map_of (active_connections (step l s e)) X = None \<longrightarrow>
      fst (try_part l e s) = Some (Some X)) \<and>
   (map_of (handlers s) c = Some (Some X) \<longrightarrow>
      map_of (active_connections (step l s (Close c))) X = None) \<and>
   (wf_state s \<and> map_of (active_connections s) X = Some x \<and>
    map_of (active_connections (step l s e)) X = Some x' \<and>
    (x' \<noteq> x \<or> heap (step l s e) x' \<noteq> heap s x) \<longrightarrow>
      (\<exists>w data s1. e = Open w data \<and>
         handle_client_try l w data s = (Some X, Return True, s1)))"
proof -
  obtain out s' where tp: "try_part l e s = (out, s')"
    by (cases "try_part l e s") auto
  note f = step_fields [OF tp]
  from try_part_shape [OF tp] consider
    (same) fr h where "s' = s\<lparr>sent := sent s @ fr, handlers := h\<rparr>"
  | (login) w data jid user pk fr h r s1 where "e = Open w data"
      "handle_client_try l w data s = (Some jid, r, s1)"
      "map_of (registered_clients s) jid = Some user"
      "s' = (registered jid user w pk s)\<lparr>sent := sent s @ fr, handlers := h\<rparr>"
      "out = None \<and> r = Return True \<or> out = Some (Some jid)"
    by blast
  note cases = this
  have closing: "map_of (active_connections (step l s (Close c))) X = None"
    if "map_of (handlers s) c = Some (Some X)"
    using that by (intro leave_try_removes) (simp add: try_part_def)
  from cases show ?thesis
  proof cases
    case same
    then have ac: "active_connections s' = active_connections s" and hp: "heap s' = heap s"
      by simp_all
    have "out = Some (Some X)"
      if "map_of (active_connections s) X \<noteq> None"
        "map_of (active_connections (step l s e)) X = None"
      using that by (auto simp: f(3) ac map_of_dict_del split: option.splits if_splits)
    moreover have False
      if "map_of (active_connections s) X = Some x"
        "map_of (active_connections (step l s e)) X = Some x'"
        "x' \<noteq> x \<or> heap (step l s e) x' \<noteq> heap s x"
      using that by (auto simp: f(1,3) ac hp map_of_dict_del split: option.splits if_splits)
    ultimately show ?thesis using tp closing by auto
  next
    case login
    from login(4) have ac: "active_connections s' = dict_set (active_connections s) jid user"
      and hp: "heap s' =
        (heap s)(user := (heap s user)\<lparr>c_websocket := Some w, c_publickey := Some pk\<rparr>)"
      by (simp_all add: registered_def)
    have "out = Some (Some X)"
      if "map_of (active_connections s) X \<noteq> None"
        "map_of (active_connections (step l s e)) X = None"
      using that login(5)
      by (auto simp: f(3) ac map_of_dict_del map_of_dict_set split: option.splits if_splits)
    moreover have "\<exists>w data s1. e = Open w data \<and>
         handle_client_try l w data s = (Some X, Return True, s1)"
      if wf: "wf_state s" and x: "map_of (active_connections s) X = Some x"
        and x': "map_of (active_connections (step l s e)) X = Some x'"
        and ch: "x' \<noteq> x \<or> heap (step l s e) x' \<noteq> heap s x"
    proof -
      from x' have stay: "map_of (active_connections s') X = Some x'"
        and notX: "out \<noteq> Some (Some X)"
        by (auto simp: f(3) map_of_dict_del split: option.splits if_splits)
      have "X = jid"
      proof (rule ccontr)
        assume ne: "X \<noteq> jid"
        with stay x have same: "x' = x" by (simp add: ac map_of_dict_set)
        with ch have "heap s' x \<noteq> heap s x" by (simp add: f(1))
        then have "x = user" by (auto simp: hp split: if_splits)
        moreover from x wf have "(X, x) \<in> set (registered_clients s)"
          unfolding wf_state_def by (auto dest: map_of_SomeD)
        moreover from login(3) have "(jid, user) \<in> set (registered_clients s)"
          by (rule map_of_SomeD)
        moreover from wf have "inj_on snd (set (registered_clients s))"
          unfolding wf_state_def by (simp add: distinct_map)
        ultimately have "(X, x) = (jid, user)"
          using inj_onD [of snd "set (registered_clients s)" "(X, x)" "(jid, user)"] by simp
        with ne show False by simp
      qed
      with notX login(5) have "r = Return True" by auto
      with login(1,2) \<open>X = jid\<close> show ?thesis by blast
    qed
    ultimately show ?thesis using tp closing by auto
  qed
qed

theorem session_removal_witness:
  "fst (try_part test_lib (Close 1) logged_in_twice) = Some (Some ''c1@s5'') \<and>
   map_of (active_connections (step test_lib logged_in_twice (Close 1))) ''c1@s5'' = None \<and>
   wf_state one_online \<and>
   (\<exists>s1. handle_client_try test_lib 2 (login_frame ''c1@s5'' ''pw-qWoDte'') one_online =
      (Some ''c1@s5'', Return True, s1))"
proof -
  have before: "map_of (active_connections logged_in_twice) ''c1@s5'' \<noteq> None"
    by (simp add: logged_in_twice_fields)
  have after: "map_of (active_connections (step test_lib logged_in_twice (Close 1))) ''c1@s5''
      = None"
    by (simp add: logged_in_twice_fields step_def try_part_def cleanup_user_def dict_del_def
        broadcast_presence_def broadcast_def)
  from session_removal [of logged_in_twice "''c1@s5''" test_lib "Close 1"] before after
  have left: "fst (try_part test_lib (Close 1) logged_in_twice) = Some (Some ''c1@s5'')"
    by blast
  have "map_of (handlers logged_in_twice) 1 = Some (Some ''c1@s5'')"
    by (simp add: logged_in_twice_fields)
  with session_removal [of logged_in_twice "''c1@s5''" test_lib "Close 1" 1]
  have gone: "map_of (active_connections (step test_lib logged_in_twice (Close 1))) ''c1@s5''
      = None" by blast
  let ?e = "Open 2 (login_frame ''c1@s5'' ''pw-qWoDte'')"
  have wf: "wf_state one_online"
    unfolding one_online_def by (intro wf_run wf_initial_state)
  have x: "map_of (active_connections one_online) ''c1@s5'' = Some 0"
    by (simp add: one_online_fields)
  have x': "map_of (active_connections (step test_lib one_online ?e)) ''c1@s5'' = Some 0"
    and w2: "c_websocket (heap (step test_lib one_online ?e) 0) = Some 2"
    by (simp_all add: model_defs one_online_fields)
  have "c_websocket (heap one_online 0) = Some 1" by (simp add: one_online_fields)
  with w2 have ch: "heap (step test_lib one_online ?e) 0 \<noteq> heap one_online 0" by auto
  from session_removal [of one_online "''c1@s5''" test_lib ?e 0 0] wf x x' ch
  have "\<exists>s1. handle_client_try test_lib 2 (login_frame ''c1@s5'' ''pw-qWoDte'') one_online =
      (Some ''c1@s5'', Return True, s1)" by auto
  with left gone wf show ?thesis by blast
qed

end
